theory Spec2Isabelle
  imports Complex_Main "HOL-Library.Word" "HOL-Library.AList"
begin

unbundle bit_operations_syntax

section \<open>Errors (module errorHandler, in src/scripts/migrate.ts)\<close>

text \<open>
  The classes an operation can throw. \<open>UserError\<close> has the three subclasses
  \<open>ValidationError\<close>, \<open>WalletError\<close> and \<open>TradeError\<close>; \<open>NetworkError\<close> extends the
  built-in \<open>Error\<close> directly; \<open>PlainError\<close> is a \<^verbatim>\<open>new Error(msg)\<close> thrown by the
  repository's own code; \<open>ExternalError\<close> is whatever a library or a remote service
  throws (ethers, node:crypto, fetch, the database client).
\<close>

datatype error =
    ValidationError string
  | WalletError string
  | TradeError string
  | NetworkError string
  | PlainError string
  | ExternalError string

fun isUserError :: "error \<Rightarrow> bool" where
  "isUserError (ValidationError m) = True"
| "isUserError (WalletError m) = True"
| "isUserError (TradeError m) = True"
| "isUserError (NetworkError m) = False"
| "isUserError (PlainError m) = False"
| "isUserError (ExternalError m) = False"

fun error_code :: "error \<Rightarrow> string option" where
  "error_code (ValidationError m) = Some ''VALIDATION_ERROR''"
| "error_code (WalletError m) = Some ''WALLET_ERROR''"
| "error_code (TradeError m) = Some ''TRADE_ERROR''"
| "error_code (NetworkError m) = Some ''NETWORK_ERROR''"
| "error_code (PlainError m) = None"
| "error_code (ExternalError m) = None"

section \<open>Byte strings and their encodings (Buffer)\<close>

type_synonym byte = "8 word"

subsection \<open>Hexadecimal\<close>

text \<open>
  \<^verbatim>\<open>Buffer.from(s, 'hex')\<close> reads two digits per byte, in either case, and stops at the
  first pair that is not two hex digits (a trailing single digit is dropped);
  \<^verbatim>\<open>buf.toString('hex')\<close> prints two lower-case digits per byte.
\<close>

definition hexval :: "char \<Rightarrow> nat option" where
  "hexval c =
     (let n = (of_char c :: nat) in
      if 48 \<le> n \<and> n \<le> 57 then Some (n - 48)
      else if 97 \<le> n \<and> n \<le> 102 then Some (n - 87)
      else if 65 \<le> n \<and> n \<le> 70 then Some (n - 55)
      else None)"

definition hexchar :: "nat \<Rightarrow> char" where
  "hexchar n = (if n < 10 then char_of (48 + n) else char_of (87 + n))"

fun hexDecode :: "string \<Rightarrow> byte list" where
  "hexDecode (a # b # rest) =
     (case hexval a of
        None \<Rightarrow> []
      | Some h \<Rightarrow>
          (case hexval b of
             None \<Rightarrow> []
           | Some l \<Rightarrow> of_nat (16 * h + l) # hexDecode rest))"
| "hexDecode [a] = []"
| "hexDecode [] = []"

definition hexByte :: "byte \<Rightarrow> string" where
  "hexByte b = [hexchar (unat b div 16), hexchar (unat b mod 16)]"

definition hexEncode :: "byte list \<Rightarrow> string" where
  "hexEncode bs = concat (map hexByte bs)"

text \<open>\<^verbatim>\<open>pkHex.replace(/^0x/, '')\<close>: one leading \<^verbatim>\<open>0x\<close> (lower-case x) is removed.\<close>

fun strip0x :: "string \<Rightarrow> string" where
  "strip0x (a # b # rest) = (if a = CHR ''0'' \<and> b = CHR ''x'' then rest else a # b # rest)"
| "strip0x s = s"

text \<open>
  \<open>validatePrivateKey\<close> (module errorHandler) and the character classes of its pattern
  \<^verbatim>\<open>/^[a-fA-F0-9]{64}$/\<close>.
\<close>

definition isHexDigit :: "char \<Rightarrow> bool" where
  "isHexDigit c = (hexval c \<noteq> None)"

definition isLowerHexDigit :: "char \<Rightarrow> bool" where
  "isLowerHexDigit c =
     (let n = (of_char c :: nat) in (48 \<le> n \<and> n \<le> 57) \<or> (97 \<le> n \<and> n \<le> 102))"

definition validatePrivateKey :: "string \<Rightarrow> bool" where
  "validatePrivateKey pk =
     (let cleanPk = (if take 2 pk = ''0x'' then drop 2 pk else pk)
      in length cleanPk = 64 \<and> list_all isHexDigit cleanPk)"

text \<open>What hex printing does to a digit: upper-case \<^verbatim>\<open>A\<close>..\<^verbatim>\<open>F\<close> come back lower-case.\<close>

definition lowerHexDigit :: "char \<Rightarrow> char" where
  "lowerHexDigit c =
     (let n = (of_char c :: nat) in if 65 \<le> n \<and> n \<le> 70 then char_of (n + 32) else c)"

subsection \<open>Base64\<close>

text \<open>
  \<^verbatim>\<open>buf.toString('base64')\<close> is the standard alphabet with \<^verbatim>\<open>=\<close> padding.
  \<^verbatim>\<open>Buffer.from(s, 'base64')\<close> is modelled on base64 text: it is read four characters
  at a time, with or without padding, up to the first character outside the alphabet.
  (On other input Node's decoder is more lenient: it skips such characters and reads
  the URL-safe alphabet as well. The vault only decodes what it encoded.)
\<close>

definition b64char :: "nat \<Rightarrow> char" where
  "b64char n =
     (if n < 26 then char_of (65 + n)
      else if n < 52 then char_of (71 + n)
      else if n < 62 then char_of (n - 4)
      else if n = 62 then CHR ''+'' else CHR ''/'')"

definition b64val :: "char \<Rightarrow> nat option" where
  "b64val c =
     (let n = (of_char c :: nat) in
      if 65 \<le> n \<and> n \<le> 90 then Some (n - 65)
      else if 97 \<le> n \<and> n \<le> 122 then Some (n - 71)
      else if 48 \<le> n \<and> n \<le> 57 then Some (n + 4)
      else if n = 43 then Some 62
      else if n = 47 then Some 63
      else None)"

fun base64Encode :: "byte list \<Rightarrow> string" where
  "base64Encode [] = []"
| "base64Encode [a] =
     (let n = unat a * 16
      in [b64char (n div 64), b64char (n mod 64), CHR ''='', CHR ''=''])"
| "base64Encode [a, b] =
     (let n = unat a * 1024 + unat b * 4
      in [b64char (n div 4096), b64char (n div 64 mod 64), b64char (n mod 64), CHR ''=''])"
| "base64Encode (a # b # c # rest) =
     (let n = unat a * 65536 + unat b * 256 + unat c
      in [b64char (n div 262144), b64char (n div 4096 mod 64),
          b64char (n div 64 mod 64), b64char (n mod 64)] @ base64Encode rest)"

definition bytes1 :: "nat \<Rightarrow> nat \<Rightarrow> byte list" where
  "bytes1 x y = [of_nat ((x * 64 + y) div 16)]"

definition bytes2 :: "nat \<Rightarrow> nat \<Rightarrow> nat \<Rightarrow> byte list" where
  "bytes2 x y z =
     (let n = (x * 4096 + y * 64 + z) div 4 in [of_nat (n div 256), of_nat (n mod 256)])"

definition bytes3 :: "nat \<Rightarrow> nat \<Rightarrow> nat \<Rightarrow> nat \<Rightarrow> byte list" where
  "bytes3 x y z v =
     (let n = x * 262144 + y * 4096 + z * 64 + v
      in [of_nat (n div 65536), of_nat (n div 256 mod 256), of_nat (n mod 256)])"

fun base64Decode :: "string \<Rightarrow> byte list" where
  "base64Decode (p # q # r # s # rest) =
     (case b64val p of
        None \<Rightarrow> []
      | Some x \<Rightarrow>
          (case b64val q of
             None \<Rightarrow> []
           | Some y \<Rightarrow>
               (case b64val r of
                  None \<Rightarrow> bytes1 x y
                | Some z \<Rightarrow>
                    (case b64val s of
                       None \<Rightarrow> bytes2 x y z
                     | Some v \<Rightarrow> bytes3 x y z v @ base64Decode rest))))"
| "base64Decode [p, q, r] =
     (case b64val p of
        None \<Rightarrow> []
      | Some x \<Rightarrow>
          (case b64val q of
             None \<Rightarrow> []
           | Some y \<Rightarrow> (case b64val r of None \<Rightarrow> bytes1 x y | Some z \<Rightarrow> bytes2 x y z)))"
| "base64Decode [p, q] =
     (case b64val p of
        None \<Rightarrow> []
      | Some x \<Rightarrow> (case b64val q of None \<Rightarrow> [] | Some y \<Rightarrow> bytes1 x y))"
| "base64Decode [p] = []"
| "base64Decode [] = []"

section \<open>Key Vault (src/wallet.ts)\<close>

text \<open>
  The authenticated cipher is node:crypto's AES-256-GCM, which is not part of the
  repository: it is a parameter. \<open>aead_seal key iv plaintext\<close> is
  \<^verbatim>\<open>createCipheriv\<close>, \<^verbatim>\<open>update\<close>, \<^verbatim>\<open>final\<close> and \<^verbatim>\<open>getAuthTag\<close>, returning ciphertext and
  tag; \<open>aead_open key iv tag ciphertext\<close> is \<^verbatim>\<open>createDecipheriv\<close>, \<^verbatim>\<open>setAuthTag\<close>,
  \<^verbatim>\<open>update\<close> and \<^verbatim>\<open>final\<close>. Either throws (a malformed key, a tag that does not
  authenticate).
\<close>

record aead =
  aead_seal :: "byte list \<Rightarrow> byte list \<Rightarrow> byte list \<Rightarrow> error + (byte list \<times> byte list)"
  aead_open :: "byte list \<Rightarrow> byte list \<Rightarrow> byte list \<Rightarrow> byte list \<Rightarrow> error + byte list"

text \<open>
  The cipher's contract under one key: sealing succeeds, and opening what was sealed,
  with the same nonce and the tag produced, gives the plaintext back.
\<close>

definition aead_correct :: "aead \<Rightarrow> byte list \<Rightarrow> bool" where
  "aead_correct c key \<longleftrightarrow>
     (\<forall>iv pt. \<exists>ct tg. aead_seal c key iv pt = Inr (ct, tg) \<and> aead_open c key iv tg ct = Inr pt)"

record config =
  ENCRYPTION_KEY_BASE64 :: string
  BASE_CHAIN_ID :: nat
  ZEROX_SWAP_BASE_URL :: string
  ZEROX_API_KEY :: "string option"
  DEXSCREENER_API_BASE :: string

record envelope =
  iv :: string
  ciphertext :: string
  tag :: string

definition getKey :: "config \<Rightarrow> byte list" where
  "getKey cfg = base64Decode (ENCRYPTION_KEY_BASE64 cfg)"

text \<open>\<open>nonce\<close> is the result of \<^verbatim>\<open>randomBytes(12)\<close> in this call.\<close>

definition encryptPrivateKey :: "aead \<Rightarrow> config \<Rightarrow> byte list \<Rightarrow> string \<Rightarrow> error + envelope" where
  "encryptPrivateKey c cfg nonce pkHex =
     (let key = getKey cfg in
      case aead_seal c key nonce (hexDecode (strip0x pkHex)) of
        Inl e \<Rightarrow> Inl e
      | Inr (ct, tg) \<Rightarrow>
          Inr \<lparr>iv = base64Encode nonce, ciphertext = base64Encode ct, tag = base64Encode tg\<rparr>)"

definition decryptPrivateKey :: "aead \<Rightarrow> config \<Rightarrow> envelope \<Rightarrow> error + string" where
  "decryptPrivateKey c cfg enc =
     (let key = getKey cfg in
      case aead_open c key (base64Decode (iv enc)) (base64Decode (tag enc))
             (base64Decode (ciphertext enc)) of
        Inl e \<Rightarrow> Inl e
      | Inr plaintext \<Rightarrow> Inr (''0x'' @ hexEncode plaintext))"

text \<open>
  \<^verbatim>\<open>decryptPrivateKey(encryptPrivateKey(pkHex))\<close>: what \<open>getSignerForUser\<close> reads back
  of a key that \<open>importUserWallet\<close> or \<open>ensureUserAndWallet\<close> stored.
\<close>

definition roundTrip :: "aead \<Rightarrow> config \<Rightarrow> byte list \<Rightarrow> string \<Rightarrow> error + string" where
  "roundTrip c cfg nonce pkHex =
     (case encryptPrivateKey c cfg nonce pkHex of
        Inl e \<Rightarrow> Inl e
      | Inr enc \<Rightarrow> decryptPrivateKey c cfg enc)"

text \<open>
  A small cipher that meets the contract for 32-byte keys, to run the vault on concrete
  keys: every byte is XORed with the first key byte, and the tag is the nonce followed
  by the plaintext length.
\<close>

definition xor_aead :: aead where
  "xor_aead =
     \<lparr>aead_seal = (\<lambda>key nonce pt.
        if length key \<noteq> 32 then Inl (ExternalError ''Invalid key length'')
        else Inr (map (\<lambda>b. b XOR hd key) pt, nonce @ [of_nat (length pt)])),
      aead_open = (\<lambda>key nonce tg ct.
        if length key \<noteq> 32 then Inl (ExternalError ''Invalid key length'')
        else if tg \<noteq> nonce @ [of_nat (length ct)]
        then Inl (ExternalError ''Unsupported state or unable to authenticate data'')
        else Inr (map (\<lambda>b. b XOR hd key) ct))\<rparr>"

section \<open>Numbers and their renderings\<close>

text \<open>
  A JavaScript \<^verbatim>\<open>number\<close> in the trade pipeline (an amount, a price) is modelled by
  the exact rational it stands for: the pipeline passes numbers along and reads them
  from decimal strings, it does not add them, and the rounding of doubles is outside
  the model. \<^verbatim>\<open>bigint\<close> is \<open>int\<close>.
\<close>

type_synonym number = rat

text \<open>\<^verbatim>\<open>String(n)\<close> and \<^verbatim>\<open>n.toString()\<close> on integers: decimal digits.\<close>

fun show_nat :: "nat \<Rightarrow> string" where
  "show_nat n = (if n < 10 then [char_of (48 + n)] else show_nat (n div 10) @ [char_of (48 + n mod 10)])"

declare show_nat.simps [simp del]

definition show_int :: "int \<Rightarrow> string" where
  "show_int i = (if i < 0 then CHR ''-'' # show_nat (nat (- i)) else show_nat (nat i))"

text \<open>
  \<^verbatim>\<open>ethers.formatUnits(v, d)\<close> prints the decimal \<open>v / 10^d\<close> and \<^verbatim>\<open>parseFloat\<close> reads
  it back; the model keeps the value.
\<close>

definition formatUnits :: "int \<Rightarrow> nat \<Rightarrow> number" where
  "formatUnits v d = of_int v / 10 ^ d"

text \<open>
  A numeric field of the quote's JSON, which the code hands to \<^verbatim>\<open>BigInt\<close> or to
  \<^verbatim>\<open>formatUnits\<close>: either it denotes an integer or the conversion throws.
\<close>

datatype jnum = Num int | Malformed

definition BigInt :: "jnum \<Rightarrow> error + int" where
  "BigInt j = (case j of Num n \<Rightarrow> Inr n | Malformed \<Rightarrow> Inl (ExternalError ''SyntaxError: Cannot convert to a BigInt''))"

definition formatUnitsJ :: "jnum \<Rightarrow> nat \<Rightarrow> error + number" where
  "formatUnitsJ j d = (case j of Num n \<Rightarrow> Inr (formatUnits n d) | Malformed \<Rightarrow> Inl (ExternalError ''invalid BigNumberish string''))"

text \<open>JavaScript truthiness of an optional string: present and not empty.\<close>

definition truthy :: "string option \<Rightarrow> bool" where
  "truthy x = (case x of None \<Rightarrow> False | Some s \<Rightarrow> s \<noteq> [])"

section \<open>The outside world\<close>

datatype order_type = Buy | Sell

record transaction_row =
  telegram_user_id :: string
  symbol :: string
  amount :: number
  price_usd :: "number option"
  order_type :: order_type
  date :: string

record wallet_row =
  address :: string
  encrypted_private_key :: envelope

record signer =
  signer_address :: string
  signer_key :: string

record request =
  req_url :: string
  req_query :: "(string \<times> string) list"
  req_headers :: "(string \<times> string) list"

text \<open>
  The quote as parsed from the response body: a field the JSON lacks is \<open>None\<close>, and
  \<open>liquidityAvailable\<close> is the truthiness of the field of that name. The transaction to
  submit comes nested under \<open>transaction\<close> or flattened into \<open>to\<close>, \<open>data\<close>, \<open>value\<close>.
\<close>

record quote_tx =
  qt_to :: "string option"
  qt_data :: "string option"
  qt_value :: "jnum option"

record quote =
  liquidityAvailable :: bool
  transaction :: "quote_tx option"
  q_to :: "string option"
  q_data :: "string option"
  q_value :: "jnum option"
  buyAmount :: "jnum option"
  sellAmount :: "jnum option"
  allowanceTarget :: "string option"

record quote_response =
  ok :: bool
  http_status :: nat
  json :: "error + quote"

record dex_pair =
  baseToken_address :: string
  baseToken_symbol :: string
  pair_priceUsd :: "number option"

record dex_response =
  dex_ok :: bool
  dex_pairs :: "dex_pair list"

record tx_request =
  tx_to :: "string option"
  tx_data :: "string option"
  tx_value :: int

record receipt =
  status :: "nat option"

text \<open>
  Everything the pipeline asks of a collaborator, as the answers they give in one run:
  the database, the chain's RPC endpoint, the two HTTP services, and the library
  functions whose results the code branches on. \<open>parseUnits x d\<close> is
  \<^verbatim>\<open>ethers.parseUnits(x.toString(), d)\<close>, which throws on a string it cannot read at
  \<open>d\<close> decimals; \<open>newWallet pk\<close> is \<^verbatim>\<open>new ethers.Wallet(pk, provider)\<close>, the signer's
  address or the constructor's exception; \<open>wait h\<close> is \<^verbatim>\<open>tx.wait()\<close> on the
  transaction with hash \<open>h\<close>.
\<close>

record world =
  cfg :: config
  cipher :: aead
  wallets :: "string \<Rightarrow> wallet_row option"
  newWallet :: "string \<Rightarrow> error + string"
  erc20_decimals :: "string \<Rightarrow> error + nat"
  erc20_symbol :: "string \<Rightarrow> error + string"
  dexscreener :: "string \<Rightarrow> error + dex_response"
  parseUnits :: "number \<Rightarrow> nat \<Rightarrow> error + int"
  zerox :: "request \<Rightarrow> error + quote_response"
  erc20_allowance :: "string \<Rightarrow> string \<Rightarrow> string \<Rightarrow> error + int"
  erc20_approve :: "string \<Rightarrow> string \<Rightarrow> string \<Rightarrow> int \<Rightarrow> error + string"
  sendTransaction :: "string \<Rightarrow> tx_request \<Rightarrow> error + string"
  wait :: "string \<Rightarrow> error + receipt option"
  insert_transaction :: "transaction_row \<Rightarrow> error option"
  now :: string

text \<open>Every call that leaves the process, in the order the calls are issued.\<close>

datatype event =
    DbSelectWallet string
  | RpcDecimals string
  | RpcSymbol string
  | FetchDexScreener string
  | FetchQuote request
  | RpcAllowance string string string
  | TxApprove string string string int
  | TxSend string tx_request
  | TxWait string
  | DbInsertTransaction transaction_row

record state =
  trace :: "event list"
  transactions :: "transaction_row list"

subsection \<open>Sequencing\<close>

text \<open>
  An \<^verbatim>\<open>async\<close> function is a state transformer that ends in a value or in the error
  thrown; \<open>io_bind\<close> is \<^verbatim>\<open>await\<close> followed by the rest of the body.
\<close>

type_synonym 'a io = "state \<Rightarrow> (error + 'a) \<times> state"

definition io_return :: "'a \<Rightarrow> 'a io" where
  "io_return x = (\<lambda>s. (Inr x, s))"

definition io_throw :: "error \<Rightarrow> 'a io" where
  "io_throw e = (\<lambda>s. (Inl e, s))"

definition io_lift :: "error + 'a \<Rightarrow> 'a io" where
  "io_lift r = (\<lambda>s. (r, s))"

definition io_bind :: "'a io \<Rightarrow> ('a \<Rightarrow> 'b io) \<Rightarrow> 'b io" where
  "io_bind m f = (\<lambda>s. case m s of (Inl e, s') \<Rightarrow> (Inl e, s') | (Inr x, s') \<Rightarrow> f x s')"

text \<open>A call to a collaborator: the call is logged and its answer is the result.\<close>

definition io_call :: "event \<Rightarrow> error + 'a \<Rightarrow> 'a io" where
  "io_call ev r = (\<lambda>s. (r, s\<lparr>trace := trace s @ [ev]\<rparr>))"

text \<open>A settled promise: the action has run, and its outcome is a value.\<close>

definition io_settle :: "'a io \<Rightarrow> (error + 'a) io" where
  "io_settle m = (\<lambda>s. case m s of (r, s') \<Rightarrow> (Inr r, s'))"

definition init :: "transaction_row list \<Rightarrow> state" where
  "init tbl = \<lparr>trace = [], transactions = tbl\<rparr>"

text \<open>
  \<open>wp m Q s\<close>: running \<open>m\<close> from \<open>s\<close> ends in a result and a state that satisfy \<open>Q\<close>.
\<close>

definition wp :: "'a io \<Rightarrow> ((error + 'a) \<Rightarrow> state \<Rightarrow> bool) \<Rightarrow> state \<Rightarrow> bool" where
  "wp m Q s = (case m s of (r, s') \<Rightarrow> Q r s')"

section \<open>Wallet lookup and the ledger (src/wallet.ts)\<close>

definition getSignerForUser :: "world \<Rightarrow> string \<Rightarrow> signer io" where
  "getSignerForUser w telegramUserId =
     io_bind (io_call (DbSelectWallet telegramUserId) (Inr (wallets w telegramUserId))) (\<lambda>row.
     case row of
       None \<Rightarrow> io_throw (WalletError ''Wallet not found. Please use /start to create a wallet.'')
     | Some r \<Rightarrow>
         io_bind (io_lift (decryptPrivateKey (cipher w) (cfg w) (encrypted_private_key r))) (\<lambda>pk.
         io_bind (io_lift (newWallet w pk)) (\<lambda>addr.
         io_return \<lparr>signer_address = addr, signer_key = pk\<rparr>)))"

text \<open>
  \<open>recordTransaction\<close> inserts one row, dated now; when the insert reports an error,
  the error is thrown and the table is as it was.
\<close>

definition recordTransaction ::
  "world \<Rightarrow> string \<Rightarrow> string \<Rightarrow> number \<Rightarrow> number option \<Rightarrow> order_type \<Rightarrow> unit io" where
  "recordTransaction w telegramUserId symb amt priceUsd orderType =
     (let row = \<lparr>telegram_user_id = telegramUserId, symbol = symb, amount = amt,
                 price_usd = priceUsd, order_type = orderType, date = now w\<rparr>
      in (\<lambda>s. case insert_transaction w row of
                 Some e \<Rightarrow> (Inl e, s\<lparr>trace := trace s @ [DbInsertTransaction row]\<rparr>)
               | None \<Rightarrow> (Inr (), s\<lparr>trace := trace s @ [DbInsertTransaction row],
                                     transactions := transactions s @ [row]\<rparr>)))"

section \<open>Price lookup (module tokenScan, in src/health.ts)\<close>

record TokenScan =
  scan_address :: string
  scan_symbol :: string
  scan_priceUsd :: "number option"

text \<open>\<^verbatim>\<open>pair.priceUsd ? Number(pair.priceUsd) : undefined\<close>: a zero price is falsy.\<close>

definition scanTokenByAddress :: "world \<Rightarrow> string \<Rightarrow> TokenScan option io" where
  "scanTokenByAddress w addr =
     (let url = DEXSCREENER_API_BASE (cfg w) @ ''/tokens/'' @ addr in
      io_bind (io_call (FetchDexScreener url) (dexscreener w url)) (\<lambda>res.
      if \<not> dex_ok res then io_return None
      else case dex_pairs res of
             [] \<Rightarrow> io_return None
           | pair # _ \<Rightarrow>
               io_return (Some \<lparr>scan_address = baseToken_address pair,
                                scan_symbol = baseToken_symbol pair,
                                scan_priceUsd = (case pair_priceUsd pair of
                                                   None \<Rightarrow> None
                                                 | Some v \<Rightarrow> if v = 0 then None else Some v)\<rparr>)))"

definition getUsdPrice :: "world \<Rightarrow> string \<Rightarrow> number option io" where
  "getUsdPrice w addr =
     io_bind (scanTokenByAddress w addr) (\<lambda>scan.
     io_return (case scan of None \<Rightarrow> None | Some sc \<Rightarrow> scan_priceUsd sc))"

section \<open>Trade execution (module trade, in src/scripts/migrate.ts)\<close>

definition ethNative :: string where
  "ethNative = ''0xEeeeeEeeeEeEeeEeEeEeeEEEeeeeEeeeeeeeEEeE''"

text \<open>
  \<^verbatim>\<open>url.searchParams.set(k, v)\<close> replaces the value of \<open>k\<close> or appends the pair; the
  configured base URL is taken to carry no query string of its own.
\<close>

definition searchParams :: "world \<Rightarrow> (string \<times> string) list \<Rightarrow> (string \<times> string) list" where
  "searchParams w params =
     (let q = foldl (\<lambda>acc (k, v). AList.update k v acc) [] params
      in if map_of q ''chainId'' = None
         then AList.update ''chainId'' (show_nat (BASE_CHAIN_ID (cfg w))) q else q)"

definition quoteRequest :: "world \<Rightarrow> (string \<times> string) list \<Rightarrow> request" where
  "quoteRequest w params =
     \<lparr>req_url = ZEROX_SWAP_BASE_URL (cfg w),
      req_query = searchParams w params,
      req_headers = (if truthy (ZEROX_API_KEY (cfg w))
                     then [(''0x-api-key'', the (ZEROX_API_KEY (cfg w)))] else [])
                    @ [(''0x-version'', ''v2'')]\<rparr>"

definition noLiquidityMessage :: string where
  "noLiquidityMessage = ''No liquidity available for this trade. Try a different amount or token.''"

definition fetchQuote :: "world \<Rightarrow> (string \<times> string) list \<Rightarrow> quote io" where
  "fetchQuote w params =
     (let req = quoteRequest w params in
      io_bind (io_call (FetchQuote req) (zerox w req)) (\<lambda>res.
      if \<not> ok res then io_throw (PlainError (''0x quote error '' @ show_nat (http_status res)))
      else
        io_bind (io_lift (json res)) (\<lambda>q.
        if \<not> liquidityAvailable q then io_throw (TradeError noLiquidityMessage)
        else io_return q)))"

definition ensureAllowanceIfNeeded :: "world \<Rightarrow> signer \<Rightarrow> string \<Rightarrow> string \<Rightarrow> int \<Rightarrow> unit io" where
  "ensureAllowanceIfNeeded w sg token spender amt =
     (let owner = signer_address sg in
      io_bind (io_call (RpcAllowance token owner spender) (erc20_allowance w token owner spender)) (\<lambda>current.
      if current \<ge> amt then io_return ()
      else
        io_bind (io_call (TxApprove token owner spender amt) (erc20_approve w token owner spender amt)) (\<lambda>tx.
        io_bind (io_call (TxWait tx) (wait w tx)) (\<lambda>_.
        io_return ()))))"

text \<open>
  \<^verbatim>\<open>Promise.all([erc20.decimals(), erc20.symbol().catch(() => 'TOKEN'), getUsdPrice(t)])\<close>:
  the three requests are all issued; a failed symbol read is replaced by the placeholder;
  a failed decimals read or price fetch rejects the whole (when both fail, the model
  reports the decimals error).
\<close>

definition tokenMeta :: "world \<Rightarrow> string \<Rightarrow> (nat \<times> string \<times> number option) io" where
  "tokenMeta w tokenAddress =
     io_bind (io_settle (io_call (RpcDecimals tokenAddress) (erc20_decimals w tokenAddress))) (\<lambda>d.
     io_bind (io_settle (io_call (RpcSymbol tokenAddress) (erc20_symbol w tokenAddress))) (\<lambda>sy.
     io_bind (io_settle (getUsdPrice w tokenAddress)) (\<lambda>p.
     io_bind (io_lift d) (\<lambda>decimals.
     io_bind (io_lift p) (\<lambda>priceUsd.
     io_return (decimals, (case sy of Inl _ \<Rightarrow> ''TOKEN'' | Inr x \<Rightarrow> x), priceUsd))))))"

text \<open>The three fields of the transaction to submit, nested or flattened.\<close>

definition quote_to :: "quote \<Rightarrow> string option" where
  "quote_to q = (case transaction q of None \<Rightarrow> q_to q
                 | Some t \<Rightarrow> (case qt_to t of None \<Rightarrow> q_to q | Some x \<Rightarrow> Some x))"

definition quote_data :: "quote \<Rightarrow> string option" where
  "quote_data q = (case transaction q of None \<Rightarrow> q_data q
                   | Some t \<Rightarrow> (case qt_data t of None \<Rightarrow> q_data q | Some x \<Rightarrow> Some x))"

definition quote_value :: "quote \<Rightarrow> jnum" where
  "quote_value q =
     (let flat = (case q_value q of None \<Rightarrow> Num 0 | Some x \<Rightarrow> x)
      in case transaction q of None \<Rightarrow> flat
         | Some t \<Rightarrow> (case qt_value t of None \<Rightarrow> flat | Some x \<Rightarrow> x))"

definition missingTransaction :: "quote \<Rightarrow> bool" where
  "missingTransaction q = (transaction q = None \<and> \<not> truthy (q_to q))"

text \<open>\<^verbatim>\<open>`Transaction failed with status: ${receipt?.status}`\<close>\<close>

definition show_status :: "receipt option \<Rightarrow> string" where
  "show_status r = (case r of None \<Rightarrow> ''undefined''
                    | Some rc \<Rightarrow> (case status rc of None \<Rightarrow> ''null'' | Some n \<Rightarrow> show_nat n))"

definition succeeded :: "receipt option \<Rightarrow> bool" where
  "succeeded r = (case r of None \<Rightarrow> False | Some rc \<Rightarrow> status rc = Some 1)"

definition transactionFailed :: "receipt option \<Rightarrow> error" where
  "transactionFailed r = TradeError (''Transaction failed with status: '' @ show_status r)"

record buy_result =
  b_hash :: string
  b_symbol :: string
  tokensReceived :: number
  ethSpent :: number
  b_priceUsd :: "number option"

record sell_result =
  s_hash :: string
  s_symbol :: string
  tokensSold :: number
  ethReceived :: number
  s_priceUsd :: "number option"

definition buyToken :: "world \<Rightarrow> string \<Rightarrow> string \<Rightarrow> number \<Rightarrow> buy_result io" where
  "buyToken w telegramUserId tokenAddress amountEthUnits =
     io_bind (getSignerForUser w telegramUserId) (\<lambda>sg.
     let taker = signer_address sg in
     io_bind (tokenMeta w tokenAddress) (\<lambda>(decimals, symb, priceUsd).
     io_bind (io_lift (parseUnits w amountEthUnits 18)) (\<lambda>sellAmountRaw.
     if sellAmountRaw \<le> 0 then io_throw (PlainError ''Amount too small. Increase amount.'')
     else
       io_bind (fetchQuote w [(''buyToken'', tokenAddress), (''sellToken'', ethNative),
                              (''sellAmount'', show_int sellAmountRaw), (''taker'', taker)]) (\<lambda>q.
       if missingTransaction q
       then io_throw (TradeError ''Invalid quote response: missing transaction data'')
       else
         io_bind (io_lift (BigInt (quote_value q))) (\<lambda>v.
         let req = \<lparr>tx_to = quote_to q, tx_data = quote_data q, tx_value = v\<rparr> in
         io_bind (io_call (TxSend taker req) (sendTransaction w taker req)) (\<lambda>tx.
         io_bind (io_call (TxWait tx) (wait w tx)) (\<lambda>rcpt.
         if \<not> succeeded rcpt then io_throw (transactionFailed rcpt)
         else
           io_bind (io_lift (case buyAmount q of None \<Rightarrow> Inr 0
                             | Some b \<Rightarrow> formatUnitsJ b decimals)) (\<lambda>received.
           io_bind (recordTransaction w telegramUserId symb received priceUsd Buy) (\<lambda>_.
           io_return \<lparr>b_hash = tx, b_symbol = symb, tokensReceived = received,
                      ethSpent = amountEthUnits, b_priceUsd = priceUsd\<rparr>))))))))) "

definition sellToken :: "world \<Rightarrow> string \<Rightarrow> string \<Rightarrow> number \<Rightarrow> sell_result io" where
  "sellToken w telegramUserId tokenAddress amountTokenUnits =
     io_bind (getSignerForUser w telegramUserId) (\<lambda>sg.
     let taker = signer_address sg in
     io_bind (tokenMeta w tokenAddress) (\<lambda>(decimals, symb, priceUsd).
     io_bind (io_lift (parseUnits w amountTokenUnits decimals)) (\<lambda>amountRaw.
     if amountRaw \<le> 0 then io_throw (TradeError ''Amount too small. Increase amount.'')
     else
       io_bind (fetchQuote w [(''buyToken'', ethNative), (''sellToken'', tokenAddress),
                              (''sellAmount'', show_int amountRaw), (''taker'', taker)]) (\<lambda>q.
       if missingTransaction q
       then io_throw (TradeError ''Invalid quote response: missing transaction data'')
       else
         io_bind (if truthy (allowanceTarget q)
                  then io_bind (io_lift (BigInt (case sellAmount q of None \<Rightarrow> Num amountRaw
                                                 | Some x \<Rightarrow> x))) (\<lambda>required.
                       ensureAllowanceIfNeeded w sg tokenAddress (the (allowanceTarget q)) required)
                  else io_return ()) (\<lambda>_.
         io_bind (io_lift (BigInt (quote_value q))) (\<lambda>v.
         let req = \<lparr>tx_to = quote_to q, tx_data = quote_data q, tx_value = v\<rparr> in
         io_bind (io_call (TxSend taker req) (sendTransaction w taker req)) (\<lambda>tx.
         io_bind (io_call (TxWait tx) (wait w tx)) (\<lambda>rcpt.
         if \<not> succeeded rcpt then io_throw (transactionFailed rcpt)
         else
           io_bind (recordTransaction w telegramUserId symb amountTokenUnits priceUsd Sell) (\<lambda>_.
           io_bind (io_lift (case buyAmount q of None \<Rightarrow> Inr 0
                             | Some b \<Rightarrow> formatUnitsJ b 18)) (\<lambda>received.
           io_return \<lparr>s_hash = tx, s_symbol = symb, tokensSold = amountTokenUnits,
                      ethReceived = received, s_priceUsd = priceUsd\<rparr>)))))))))) "

section \<open>Holdings\<close>

text \<open>
  Holdings are listed by the database function \<open>get_holdings_for_user\<close>, which
  \<open>getHoldingsForUser\<close> (src/wallet.ts) calls for the portfolio. Its amounts are SQL
  \<open>numeric\<close>, exact decimals, so the rationals are their model. (The TypeScript
  \<open>getHoldings\<close> of src/portfolio.ts, which the bot's commands do not call, adds the
  same signed amounts as doubles and does not filter; it is not modelled.)

  \<open>delta\<close> is the summand \<^verbatim>\<open>case when order_type = 'buy' then amount else -amount end\<close>,
  and \<open>rowsOf\<close> the clause \<^verbatim>\<open>where telegram_user_id = p_telegram_user_id\<close>.
\<close>

definition delta :: "transaction_row \<Rightarrow> number" where
  "delta row = (if order_type row = Buy then amount row else - amount row)"

definition rowsOf :: "transaction_row list \<Rightarrow> string \<Rightarrow> transaction_row list" where
  "rowsOf tbl uid = filter (\<lambda>row. telegram_user_id row = uid) tbl"

text \<open>
  \<open>get_holdings_for_user\<close> (SQL, the migration in src/health.ts): the user's rows
  grouped by symbol, each group summed with sells negated, and the groups with a sum
  above zero kept. SQL fixes no order of the groups; the model lists each group once.
\<close>

definition get_holdings_for_user :: "transaction_row list \<Rightarrow> string \<Rightarrow> (string \<times> number) list" where
  "get_holdings_for_user tbl p_telegram_user_id =
     (let rows = rowsOf tbl p_telegram_user_id;
          groups = remdups (map symbol rows);
          totals = map (\<lambda>g. (g, sum_list (map delta (filter (\<lambda>row. symbol row = g) rows)))) groups
      in filter (\<lambda>(g, net). net > 0) totals)"

text \<open>
  The specification's wording of a net position: the sum of the amounts bought minus the
  sum of the amounts sold, over the user's records of one symbol.
\<close>

definition net_position :: "transaction_row list \<Rightarrow> string \<Rightarrow> string \<Rightarrow> number" where
  "net_position tbl uid symb =
     sum_list (map amount (filter (\<lambda>row. symbol row = symb \<and> order_type row = Buy) (rowsOf tbl uid)))
     - sum_list (map amount (filter (\<lambda>row. symbol row = symb \<and> order_type row = Sell) (rowsOf tbl uid)))"

section \<open>Reading a trace\<close>

fun is_allowance_step :: "event \<Rightarrow> bool" where
  "is_allowance_step (RpcAllowance token owner spender) = True"
| "is_allowance_step (TxApprove token owner spender amt) = True"
| "is_allowance_step e = False"

text \<open>A transaction handed to the chain: an approval or the swap itself.\<close>

fun is_broadcast :: "event \<Rightarrow> bool" where
  "is_broadcast (TxApprove token owner spender amt) = True"
| "is_broadcast (TxSend sender req) = True"
| "is_broadcast e = False"

text \<open>
  What the describe step hands on when it succeeds: the symbol read from the contract or
  the placeholder, and the price of the first pair of the price service's answer.
\<close>

definition symbolOf :: "world \<Rightarrow> string \<Rightarrow> string" where
  "symbolOf w tokenAddress =
     (case erc20_symbol w tokenAddress of Inl _ \<Rightarrow> ''TOKEN'' | Inr x \<Rightarrow> x)"

definition priceOf :: "dex_response \<Rightarrow> number option" where
  "priceOf dx =
     (if \<not> dex_ok dx then None
      else case dex_pairs dx of
             [] \<Rightarrow> None
           | pair # _ \<Rightarrow> (case pair_priceUsd pair of
                            None \<Rightarrow> None
                          | Some v \<Rightarrow> if v = 0 then None else Some v))"

definition priceUrl :: "world \<Rightarrow> string \<Rightarrow> string" where
  "priceUrl w tokenAddress = DEXSCREENER_API_BASE (cfg w) @ ''/tokens/'' @ tokenAddress"

text \<open>The four requests both pipelines issue before they look at the amount.\<close>

definition describeCalls :: "world \<Rightarrow> string \<Rightarrow> string \<Rightarrow> event list" where
  "describeCalls w telegramUserId tokenAddress =
     [DbSelectWallet telegramUserId, RpcDecimals tokenAddress, RpcSymbol tokenAddress,
      FetchDexScreener (priceUrl w tokenAddress)]"

section \<open>A concrete world\<close>

text \<open>
  One world to run the pipelines in: a user \<open>42\<close> with a stored wallet, a token with
  18 decimals, a quote service that answers every request with the same quote, and a
  chain that confirms every transaction. \<open>parseUnits_exact\<close> converts an amount that has
  no more than \<open>d\<close> decimals and throws on any other, as ethers does.
\<close>

definition parseUnits_exact :: "number \<Rightarrow> nat \<Rightarrow> error + int" where
  "parseUnits_exact x d =
     (let scaled = x * 10 ^ d in
      if of_int \<lfloor>scaled\<rfloor> = scaled then Inr \<lfloor>scaled\<rfloor>
      else Inl (ExternalError ''too many decimals for format''))"

definition demo_cfg :: config where
  "demo_cfg =
     \<lparr>ENCRYPTION_KEY_BASE64 = ''AQIDBAUGBwgJCgsMDQ4PEBESExQVFhcYGRobHB0eHyA='',
      BASE_CHAIN_ID = 8453,
      ZEROX_SWAP_BASE_URL = ''https://api.0x.org/swap/allowance-holder/quote'',
      ZEROX_API_KEY = None,
      DEXSCREENER_API_BASE = ''https://api.dexscreener.com/latest/dex''\<rparr>"

definition demo_nonce :: "byte list" where
  "demo_nonce = [160, 161, 162, 163, 164, 165, 166, 167, 168, 169, 170, 171]"

definition demo_pk :: string where
  "demo_pk = ''0x0123456789abcdef0123456789abcdef0123456789abcdef0123456789abcdef''"

definition demo_envelope :: envelope where
  "demo_envelope =
     \<lparr>iv = ''oKGio6Slpqeoqaqr'',
      ciphertext = ''ACJEZoiqzO4AIkRmiKrM7gAiRGaIqszuACJEZoiqzO4='',
      tag = ''oKGio6SlpqeoqaqrIA==''\<rparr>"

definition demo_address :: string where
  "demo_address = ''0xc69b04bDdD0Eb0aC83afe533fd173610C6c2f864''"

definition demo_token :: string where
  "demo_token = ''0x833589fCD6eDb6E08f4c7C32D4f71b54bdA02913''"

definition demo_quote :: quote where
  "demo_quote =
     \<lparr>liquidityAvailable = True,
      transaction = Some \<lparr>qt_to = Some ''0x0000000000001fF3684f28c67538d4D072C22734'',
                          qt_data = Some ''0x2213bc0b'',
                          qt_value = Some (Num 100000000000000)\<rparr>,
      q_to = None, q_data = None, q_value = None,
      buyAmount = Some (Num 2000000000000000000),
      sellAmount = Some (Num 100000000000000),
      allowanceTarget = None\<rparr>"

definition demo :: world where
  "demo =
     \<lparr>cfg = demo_cfg,
      cipher = xor_aead,
      wallets = (\<lambda>u. if u = ''42''
                     then Some \<lparr>address = demo_address, encrypted_private_key = demo_envelope\<rparr>
                     else None),
      newWallet = (\<lambda>pk. Inr demo_address),
      erc20_decimals = (\<lambda>t. Inr 18),
      erc20_symbol = (\<lambda>t. Inr ''DEMO''),
      dexscreener = (\<lambda>url. Inr \<lparr>dex_ok = True, dex_pairs = []\<rparr>),
      parseUnits = parseUnits_exact,
      zerox = (\<lambda>rq. Inr \<lparr>ok = True, http_status = 200, json = Inr demo_quote\<rparr>),
      erc20_allowance = (\<lambda>token owner spender. Inr 0),
      erc20_approve = (\<lambda>token owner spender amt. Inr ''0xa1'') ,
      sendTransaction = (\<lambda>sender req. Inr ''0xb2''),
      wait = (\<lambda>h. Inr (Some \<lparr>status = Some 1\<rparr>)),
      insert_transaction = (\<lambda>row. None),
      now = ''2025-01-01T00:00:00.000Z''\<rparr>"

text \<open>
  Variants of that world: a chain that reports every transaction as reverted, a quote
  service without liquidity, one that answers HTTP 500, and one whose quote names a
  spender.
\<close>

definition demo_reverted :: world where
  "demo_reverted = demo\<lparr>wait := (\<lambda>h. Inr (Some \<lparr>status = Some 0\<rparr>))\<rparr>"

definition demo_no_liquidity :: world where
  "demo_no_liquidity =
     demo\<lparr>zerox := (\<lambda>rq. Inr \<lparr>ok = True, http_status = 200,
                               json = Inr (demo_quote\<lparr>liquidityAvailable := False\<rparr>)\<rparr>)\<rparr>"

definition demo_http_500 :: world where
  "demo_http_500 =
     demo\<lparr>zerox := (\<lambda>rq. Inr \<lparr>ok = False, http_status = 500,
                               json = Inl (ExternalError ''Unexpected end of JSON input'')\<rparr>)\<rparr>"

definition demo_signer :: signer where
  "demo_signer = \<lparr>signer_address = demo_address, signer_key = demo_pk\<rparr>"

text \<open>The stored key without its prefix, and the same key typed in upper case.\<close>

definition demo_pk_bare :: string where
  "demo_pk_bare = ''0123456789abcdef0123456789abcdef0123456789abcdef0123456789abcdef''"

definition demo_pk_upper :: string where
  "demo_pk_upper = ''0123456789ABCDEF0123456789ABCDEF0123456789ABCDEF0123456789ABCDEF''"

text \<open>Two small ledgers of user \<open>42\<close>: buys of 10 and 5 with a sell of 3, and a buy of 5 sold again.\<close>

definition demo_trade :: "number \<Rightarrow> order_type \<Rightarrow> transaction_row" where
  "demo_trade amt ot =
     \<lparr>telegram_user_id = ''42'', symbol = ''DEMO'', amount = amt, price_usd = None,
      order_type = ot, date = ''2025-01-01T00:00:00.000Z''\<rparr>"

definition demo_ledger_held :: "transaction_row list" where
  "demo_ledger_held = [demo_trade 10 Buy, demo_trade 5 Buy, demo_trade 3 Sell]"

definition demo_ledger_flat :: "transaction_row list" where
  "demo_ledger_flat = [demo_trade 5 Buy, demo_trade 5 Sell]"

section \<open>Reasoning about runs\<close>

lemmas io_defs = io_bind_def io_return_def io_throw_def io_lift_def io_call_def io_settle_def

lemma init_simps [simp]: "trace (init tbl) = []" "transactions (init tbl) = tbl"
  by (simp_all add: init_def)

lemma wpD: "wp m Q s \<Longrightarrow> m s = (r, s') \<Longrightarrow> Q r s'"
  by (simp add: wp_def)

lemma wp_bind:
  "wp (io_bind m f) Q s =
   wp m (\<lambda>r s1. case r of Inl e \<Rightarrow> Q (Inl e) s1 | Inr x \<Rightarrow> wp (f x) Q s1) s"
  by (auto simp: wp_def io_bind_def split: prod.splits sum.splits)

lemma wp_return: "wp (io_return x) Q s = Q (Inr x) s"
  by (simp add: wp_def io_return_def)

lemma wp_throw: "wp (io_throw e) Q s = Q (Inl e) s"
  by (simp add: wp_def io_throw_def)

lemma wp_lift: "wp (io_lift r) Q s = Q r s"
  by (simp add: wp_def io_lift_def)

lemma wp_call: "wp (io_call ev r) Q s = Q r (s\<lparr>trace := trace s @ [ev]\<rparr>)"
  by (simp add: wp_def io_call_def)

text \<open>
  Each step of the pipeline adds its calls to the trace whatever its answer is, and its
  answer does not depend on the state it starts from.
\<close>

lemma wp_getSigner:
  "wp (getSignerForUser w u) Q s =
   Q (fst (getSignerForUser w u (init []))) (s\<lparr>trace := trace s @ [DbSelectWallet u]\<rparr>)"
  by (auto simp: wp_def getSignerForUser_def io_defs init_def split: option.splits sum.splits)

lemma wp_tokenMeta:
  "wp (tokenMeta w t) Q s =
   Q (fst (tokenMeta w t (init [])))
     (s\<lparr>trace := trace s @ [RpcDecimals t, RpcSymbol t, FetchDexScreener (priceUrl w t)]\<rparr>)"
  by (auto simp: wp_def tokenMeta_def getUsdPrice_def scanTokenByAddress_def io_defs Let_def
        init_def priceUrl_def split: option.splits sum.splits list.splits if_splits)

lemma wp_fetchQuote:
  "wp (fetchQuote w p) Q s =
   Q (fst (fetchQuote w p (init []))) (s\<lparr>trace := trace s @ [FetchQuote (quoteRequest w p)]\<rparr>)"
  by (auto simp: wp_def fetchQuote_def io_defs Let_def init_def
        split: option.splits sum.splits if_splits)

lemma wp_record:
  "wp (recordTransaction w u sy amt p ot) Q s =
   (let row = \<lparr>telegram_user_id = u, symbol = sy, amount = amt, price_usd = p,
               order_type = ot, date = now w\<rparr>
    in case insert_transaction w row of
         Some e \<Rightarrow> Q (Inl e) (s\<lparr>trace := trace s @ [DbInsertTransaction row]\<rparr>)
       | None \<Rightarrow> Q (Inr ()) (s\<lparr>trace := trace s @ [DbInsertTransaction row],
                                transactions := transactions s @ [row]\<rparr>))"
  by (auto simp: wp_def recordTransaction_def Let_def split: option.splits)

lemma ensure_result:
  "ensureAllowanceIfNeeded w sg t sp a s =
     (case erc20_allowance w t (signer_address sg) sp of
        Inl e \<Rightarrow> (Inl e, s\<lparr>trace := trace s @ [RpcAllowance t (signer_address sg) sp]\<rparr>)
      | Inr current \<Rightarrow>
          if current \<ge> a
          then (Inr (), s\<lparr>trace := trace s @ [RpcAllowance t (signer_address sg) sp]\<rparr>)
          else (case erc20_approve w t (signer_address sg) sp a of
                  Inl e \<Rightarrow> (Inl e, s\<lparr>trace := trace s @ [RpcAllowance t (signer_address sg) sp,
                                         TxApprove t (signer_address sg) sp a]\<rparr>)
                | Inr tx \<Rightarrow> ((case wait w tx of Inl e \<Rightarrow> Inl e | Inr _ \<Rightarrow> Inr ()),
                             s\<lparr>trace := trace s @ [RpcAllowance t (signer_address sg) sp,
                                         TxApprove t (signer_address sg) sp a, TxWait tx]\<rparr>)))"
  by (simp add: ensureAllowanceIfNeeded_def io_defs Let_def split: sum.split)

lemma wp_ensure:
  "wp (ensureAllowanceIfNeeded w sg t sp a) Q s =
   Q (fst (ensureAllowanceIfNeeded w sg t sp a (init [])))
     (s\<lparr>trace := trace s @ trace (snd (ensureAllowanceIfNeeded w sg t sp a (init [])))\<rparr>)"
  by (simp add: wp_def ensure_result split: sum.split)

lemma ensure_events:
  "e \<in> set (trace (snd (ensureAllowanceIfNeeded w sg t sp a (init [])))) \<Longrightarrow>
   is_allowance_step e \<or> (\<exists>h. e = TxWait h)"
  by (auto simp: ensure_result split: sum.splits if_splits)

lemma ensure_no_send [simp]:
  "TxSend x y \<notin> set (trace (snd (ensureAllowanceIfNeeded w sg t sp a (init []))))"
  using ensure_events [of "TxSend x y" w sg t sp a] by auto

lemma ensure_no_insert [simp]:
  "DbInsertTransaction row \<notin> set (trace (snd (ensureAllowanceIfNeeded w sg t sp a (init []))))"
  using ensure_events [of "DbInsertTransaction row" w sg t sp a] by auto

lemma ensure_no_quote [simp]:
  "FetchQuote rq \<notin> set (trace (snd (ensureAllowanceIfNeeded w sg t sp a (init []))))"
  using ensure_events [of "FetchQuote rq" w sg t sp a] by auto

lemmas wp_rules = wp_bind wp_return wp_throw wp_lift wp_call wp_getSigner wp_tokenMeta
  wp_fetchQuote wp_record wp_ensure

text \<open>The answers of the steps, from the answers of the world.\<close>

lemma signer_result:
  assumes "wallets w u = Some row"
    and "decryptPrivateKey (cipher w) (cfg w) (encrypted_private_key row) = Inr pk"
    and "newWallet w pk = Inr addr"
  shows "fst (getSignerForUser w u s) = Inr \<lparr>signer_address = addr, signer_key = pk\<rparr>"
  using assms by (simp add: getSignerForUser_def io_defs)

lemma meta_result:
  assumes "erc20_decimals w t = Inr d" and "dexscreener w (priceUrl w t) = Inr dx"
  shows "fst (tokenMeta w t s) = Inr (d, symbolOf w t, priceOf dx)"
  using assms
  by (simp add: tokenMeta_def getUsdPrice_def scanTokenByAddress_def io_defs Let_def
        priceOf_def symbolOf_def priceUrl_def split: list.split option.split sum.split)

lemma quote_result:
  "fst (fetchQuote w p s) =
     (case zerox w (quoteRequest w p) of
        Inl e \<Rightarrow> Inl e
      | Inr resp \<Rightarrow>
          if \<not> ok resp then Inl (PlainError (''0x quote error '' @ show_nat (http_status resp)))
          else (case json resp of
                  Inl e \<Rightarrow> Inl e
                | Inr q \<Rightarrow> if \<not> liquidityAvailable q then Inl (TradeError noLiquidityMessage)
                           else Inr q))"
  by (simp add: fetchQuote_def io_defs Let_def split: sum.split)

lemma ex_rev: "\<exists>rest. xs = rev rest"
  by (rule exI [of _ "rev xs"]) simp

lemma rev_two: "rev xs = b # a # rest \<Longrightarrow> xs = rev rest @ [a, b]"
  by (drule arg_cong [of _ _ rev]) simp

section \<open>Running the concrete world\<close>

lemma demo_key: "getKey demo_cfg = map of_nat [1..<33]"
  by (simp add: getKey_def demo_cfg_def b64val_def bytes3_def bytes2_def bytes1_def upt_rec)

lemma demo_decrypt: "decryptPrivateKey xor_aead demo_cfg demo_envelope = Inr demo_pk"
  by (simp add: decryptPrivateKey_def demo_key upt_rec xor_aead_def demo_envelope_def demo_pk_def
        b64val_def bytes3_def bytes2_def bytes1_def hexEncode_def hexByte_def hexchar_def
        char_of_def bit_Suc_0_iff)

lemma demo_signer_result:
  assumes "cfg w = demo_cfg" and "cipher w = xor_aead"
    and "wallets w ''42'' = Some \<lparr>address = demo_address, encrypted_private_key = demo_envelope\<rparr>"
    and "newWallet w demo_pk = Inr demo_address"
  shows "fst (getSignerForUser w ''42'' s) = Inr demo_signer"
  using signer_result [of w "''42''" _ demo_pk demo_address s] assms demo_decrypt
  by (simp add: demo_signer_def)

lemma demo_parse: "parseUnits_exact (1 / 10000) 18 = Inr 100000000000000"
  "parseUnits_exact 0 d = Inr 0"
  by (simp_all add: parseUnits_exact_def)

lemma demo_quote_fields:
  "quote_to demo_quote = Some ''0x0000000000001fF3684f28c67538d4D072C22734''"
  "quote_data demo_quote = Some ''0x2213bc0b''"
  "quote_value demo_quote = Num 100000000000000"
  "\<not> missingTransaction demo_quote"
  "liquidityAvailable demo_quote"
  "allowanceTarget demo_quote = None"
  "buyAmount demo_quote = Some (Num 2000000000000000000)"
  by (simp_all add: demo_quote_def quote_to_def quote_data_def quote_value_def
        missingTransaction_def)

section \<open>Failed receipts and the ledger\<close>

lemma buy_failed_receipt:
  assumes "buyToken w u t a (init tbl) = (res, s')" "TxSend sender req \<in> set (trace s')"
    "sendTransaction w sender req = Inr h" "wait w h = Inr r" "\<not> succeeded r"
  shows "res = Inl (transactionFailed r) \<and> transactions s' = tbl
          \<and> (\<forall>row. DbInsertTransaction row \<notin> set (trace s'))"
proof -
  have "wp (buyToken w u t a) (\<lambda>res s'. \<forall>sender req h r. TxSend sender req \<in> set (trace s') \<and>
    sendTransaction w sender req = Inr h \<and> wait w h = Inr r \<and> \<not> succeeded r \<longrightarrow>
      res = Inl (transactionFailed r) \<and> transactions s' = tbl
          \<and> (\<forall>row. DbInsertTransaction row \<notin> set (trace s'))) (init tbl)"
    by (simp add: buyToken_def wp_rules Let_def split: sum.split prod.split option.split)
  from wpD [OF this assms(1)] assms(2-) show ?thesis by blast
qed

lemma sell_failed_receipt:
  assumes "sellToken w u t a (init tbl) = (res, s')" "TxSend sender req \<in> set (trace s')"
    "sendTransaction w sender req = Inr h" "wait w h = Inr r" "\<not> succeeded r"
  shows "res = Inl (transactionFailed r) \<and> transactions s' = tbl
          \<and> (\<forall>row. DbInsertTransaction row \<notin> set (trace s'))"
proof -
  have "wp (sellToken w u t a) (\<lambda>res s'. \<forall>sender req h r. TxSend sender req \<in> set (trace s') \<and>
    sendTransaction w sender req = Inr h \<and> wait w h = Inr r \<and> \<not> succeeded r \<longrightarrow>
      res = Inl (transactionFailed r) \<and> transactions s' = tbl
          \<and> (\<forall>row. DbInsertTransaction row \<notin> set (trace s'))) (init tbl)"
    by (simp add: sellToken_def wp_rules Let_def split: sum.split prod.split option.split)
  from wpD [OF this assms(1)] assms(2-) show ?thesis by blast
qed

lemma buy_insert_after_success:
  assumes "buyToken w u t a (init tbl) = (res, s')" "DbInsertTransaction row \<in> set (trace s')"
  shows "\<exists>pre h rc. trace s' = pre @ [TxWait h, DbInsertTransaction row]
                      \<and> wait w h = Inr (Some rc) \<and> status rc = Some 1"
proof -
  have "wp (buyToken w u t a) (\<lambda>res s'. \<forall>row. DbInsertTransaction row \<in> set (trace s') \<longrightarrow>
     (\<exists>h rest rc. rev (trace s') = DbInsertTransaction row # TxWait h # rest
         \<and> wait w h = Inr (Some rc) \<and> status rc = Some 1)) (init tbl)"
    by (simp add: buyToken_def wp_rules Let_def succeeded_def ex_rev
          split: sum.split prod.split option.split)
  from wpD [OF this assms(1)] assms(2) obtain h rest rc where
    r: "rev (trace s') = DbInsertTransaction row # TxWait h # rest"
    and ok: "wait w h = Inr (Some rc)" "status rc = Some 1"
    by blast
  from rev_two [OF r] ok show ?thesis by blast
qed

lemma sell_insert_after_success:
  assumes "sellToken w u t a (init tbl) = (res, s')" "DbInsertTransaction row \<in> set (trace s')"
  shows "\<exists>pre h rc. trace s' = pre @ [TxWait h, DbInsertTransaction row]
                      \<and> wait w h = Inr (Some rc) \<and> status rc = Some 1"
proof -
  have "wp (sellToken w u t a) (\<lambda>res s'. \<forall>row. DbInsertTransaction row \<in> set (trace s') \<longrightarrow>
     (\<exists>h rest rc. rev (trace s') = DbInsertTransaction row # TxWait h # rest
         \<and> wait w h = Inr (Some rc) \<and> status rc = Some 1)) (init tbl)"
    by (simp add: sellToken_def wp_rules Let_def succeeded_def ex_rev
          split: sum.split prod.split option.split)
  from wpD [OF this assms(1)] assms(2) obtain h rest rc where
    r: "rev (trace s') = DbInsertTransaction row # TxWait h # rest"
    and ok: "wait w h = Inr (Some rc)" "status rc = Some 1"
    by blast
  from rev_two [OF r] ok show ?thesis by blast
qed

text \<open>
  C1. In \<open>buyToken\<close> and in \<open>sellToken\<close>: when the receipt awaited for the submitted swap
  does not have status 1, the operation fails with the transaction-failed \<open>TradeError\<close>,
  the transactions table is unchanged and no insert was issued; and an insert is only
  ever issued directly after the wait on a transaction whose receipt has status 1.
\<close>

theorem failed_receipt_writes_no_record:
  "(\<forall>sender req h r.
      buyToken w u t a (init tbl) = (res, s') \<and> TxSend sender req \<in> set (trace s')
      \<and> sendTransaction w sender req = Inr h \<and> wait w h = Inr r \<and> \<not> succeeded r
      \<longrightarrow> res = Inl (transactionFailed r) \<and> transactions s' = tbl
          \<and> (\<forall>row. DbInsertTransaction row \<notin> set (trace s')))
   \<and> (\<forall>sender req h r.
      sellToken w u t a (init tbl) = (res2, s2) \<and> TxSend sender req \<in> set (trace s2)
      \<and> sendTransaction w sender req = Inr h \<and> wait w h = Inr r \<and> \<not> succeeded r
      \<longrightarrow> res2 = Inl (transactionFailed r) \<and> transactions s2 = tbl
          \<and> (\<forall>row. DbInsertTransaction row \<notin> set (trace s2)))
   \<and> (\<forall>row.
      buyToken w u t a (init tbl) = (res, s') \<and> DbInsertTransaction row \<in> set (trace s')
      \<longrightarrow> (\<exists>pre h rc. trace s' = pre @ [TxWait h, DbInsertTransaction row]
                      \<and> wait w h = Inr (Some rc) \<and> status rc = Some 1))
   \<and> (\<forall>row.
      sellToken w u t a (init tbl) = (res2, s2) \<and> DbInsertTransaction row \<in> set (trace s2)
      \<longrightarrow> (\<exists>pre h rc. trace s2 = pre @ [TxWait h, DbInsertTransaction row]
                      \<and> wait w h = Inr (Some rc) \<and> status rc = Some 1))"
  using buy_failed_receipt [of w u t a tbl res s'] sell_failed_receipt [of w u t a tbl res2 s2]
    buy_insert_after_success [of w u t a tbl res s']
    sell_insert_after_success [of w u t a tbl res2 s2]
  by blast

theorem failed_receipt_writes_no_record_witness:
  "fst (buyToken demo_reverted ''42'' demo_token (1 / 10000) (init []))
     = Inl (TradeError ''Transaction failed with status: 0'')
   \<and> transactions (snd (buyToken demo_reverted ''42'' demo_token (1 / 10000) (init []))) = []
   \<and> fst (sellToken demo_reverted ''42'' demo_token (1 / 10000) (init []))
     = Inl (TradeError ''Transaction failed with status: 0'')
   \<and> transactions (snd (sellToken demo_reverted ''42'' demo_token (1 / 10000) (init []))) = []"
proof -
  define req where "req = \<lparr>tx_to = quote_to demo_quote, tx_data = quote_data demo_quote,
                           tx_value = 100000000000000\<rparr>"
  define rb where "rb = buyToken demo_reverted ''42'' demo_token (1 / 10000) (init [])"
  define rs where "rs = sellToken demo_reverted ''42'' demo_token (1 / 10000) (init [])"
  have sg: "fst (getSignerForUser demo_reverted ''42'' (init [])) = Inr demo_signer"
    by (rule demo_signer_result) (simp_all add: demo_reverted_def demo_def)
  have meta: "fst (tokenMeta demo_reverted demo_token (init [])) = Inr (18, ''DEMO'', None)"
    using meta_result [of demo_reverted demo_token 18 "\<lparr>dex_ok = True, dex_pairs = []\<rparr>" "init []"]
    by (simp add: demo_reverted_def demo_def symbolOf_def priceOf_def)
  have world: "parseUnits demo_reverted = parseUnits_exact"
    "zerox demo_reverted = (\<lambda>rq. Inr \<lparr>ok = True, http_status = 200, json = Inr demo_quote\<rparr>)"
    "sendTransaction demo_reverted = (\<lambda>sender req. Inr ''0xb2'')"
    "wait demo_reverted = (\<lambda>h. Inr (Some \<lparr>status = Some 0\<rparr>))"
    by (simp_all add: demo_reverted_def demo_def)
  have "wp (buyToken demo_reverted ''42'' demo_token (1 / 10000))
          (\<lambda>r s. TxSend demo_address req \<in> set (trace s)) (init [])"
    by (simp add: buyToken_def wp_rules Let_def sg meta world demo_parse quote_result
          demo_quote_fields demo_signer_def BigInt_def succeeded_def req_def)
  then have tb: "TxSend demo_address req \<in> set (trace (snd rb))"
    by (simp add: wp_def rb_def split: prod.splits)
  have "wp (sellToken demo_reverted ''42'' demo_token (1 / 10000))
          (\<lambda>r s. TxSend demo_address req \<in> set (trace s)) (init [])"
    by (simp add: sellToken_def wp_rules Let_def sg meta world demo_parse quote_result
          demo_quote_fields demo_signer_def BigInt_def succeeded_def truthy_def req_def)
  then have ts: "TxSend demo_address req \<in> set (trace (snd rs))"
    by (simp add: wp_def rs_def split: prod.splits)
  have failed: "\<not> succeeded (Some \<lparr>status = Some 0\<rparr>)"
    by (simp add: succeeded_def)
  have msg: "transactionFailed (Some \<lparr>status = Some 0\<rparr>)
               = TradeError ''Transaction failed with status: 0''"
    by (simp add: transactionFailed_def show_status_def show_nat.simps char_of_def bit_Suc_0_iff)
  from failed_receipt_writes_no_record
         [of demo_reverted "''42''" demo_token "1 / 10000" "[]" "fst rb" "snd rb" "fst rs" "snd rs"]
  have "fst rb = Inl (transactionFailed (Some \<lparr>status = Some 0\<rparr>)) \<and> transactions (snd rb) = []
      \<and> fst rs = Inl (transactionFailed (Some \<lparr>status = Some 0\<rparr>)) \<and> transactions (snd rs) = []"
    using tb ts failed by (simp add: rb_def rs_def world) blast
  then show ?thesis by (simp add: msg rb_def rs_def)
qed

section \<open>Allowance\<close>

text \<open>
  C3. Given the allowance the chain reports for (owner, spender): when it covers the
  required amount, \<open>ensureAllowanceIfNeeded\<close> returns after that one read and hands no
  transaction to the chain; otherwise it submits exactly one approval, for the required
  amount, and when it returns normally the approval was submitted and its receipt
  awaited, in this order.
\<close>

theorem allowance_short_circuit:
  assumes "erc20_allowance w token (signer_address sg) spender = Inr current"
    and "ensureAllowanceIfNeeded w sg token spender amt (init tbl) = (res, s')"
  shows "(current \<ge> amt \<longrightarrow>
            res = Inr () \<and> trace s' = [RpcAllowance token (signer_address sg) spender])
       \<and> (current < amt \<longrightarrow>
            filter is_broadcast (trace s') = [TxApprove token (signer_address sg) spender amt]
            \<and> (res = Inr () \<longrightarrow>
                 (\<exists>tx rc. erc20_approve w token (signer_address sg) spender amt = Inr tx
                    \<and> wait w tx = Inr rc
                    \<and> trace s' = [RpcAllowance token (signer_address sg) spender,
                                  TxApprove token (signer_address sg) spender amt, TxWait tx])))
       \<and> transactions s' = tbl"
  using assms by (auto simp: ensure_result split: sum.splits if_splits)

theorem allowance_short_circuit_witness:
  "ensureAllowanceIfNeeded demo demo_signer demo_token ''0xSpender'' 0 (init [])
     = (Inr (), \<lparr>trace = [RpcAllowance demo_token demo_address ''0xSpender''], transactions = []\<rparr>)
   \<and> filter is_broadcast
        (trace (snd (ensureAllowanceIfNeeded demo demo_signer demo_token ''0xSpender'' 1000000 (init []))))
     = [TxApprove demo_token demo_address ''0xSpender'' 1000000]
   \<and> trace (snd (ensureAllowanceIfNeeded demo demo_signer demo_token ''0xSpender'' 1000000 (init [])))
     = [RpcAllowance demo_token demo_address ''0xSpender'',
        TxApprove demo_token demo_address ''0xSpender'' 1000000, TxWait ''0xa1'']"
proof -
  define r0 where "r0 = ensureAllowanceIfNeeded demo demo_signer demo_token ''0xSpender'' 0 (init [])"
  define r1 where
    "r1 = ensureAllowanceIfNeeded demo demo_signer demo_token ''0xSpender'' 1000000 (init [])"
  have cur: "erc20_allowance demo demo_token (signer_address demo_signer) ''0xSpender'' = Inr 0"
    by (simp add: demo_def)
  have ok1: "fst r1 = Inr ()"
    by (simp add: r1_def ensure_result demo_def)
  have appr: "erc20_approve demo demo_token (signer_address demo_signer) ''0xSpender'' 1000000
                = Inr ''0xa1''"
    by (simp add: demo_def)
  from allowance_short_circuit [OF cur, of 0 "[]" "fst r0" "snd r0"]
  have a: "fst r0 = Inr () \<and> trace (snd r0) = [RpcAllowance demo_token demo_address ''0xSpender'']
            \<and> transactions (snd r0) = []"
    by (simp add: r0_def demo_signer_def)
  from allowance_short_circuit [OF cur, of 1000000 "[]" "fst r1" "snd r1"] ok1 appr
  have b: "filter is_broadcast (trace (snd r1)) = [TxApprove demo_token demo_address ''0xSpender'' 1000000]
       \<and> trace (snd r1) = [RpcAllowance demo_token demo_address ''0xSpender'',
                           TxApprove demo_token demo_address ''0xSpender'' 1000000, TxWait ''0xa1'']"
    by (simp add: r1_def demo_signer_def)
  from a have "r0 = (Inr (), \<lparr>trace = [RpcAllowance demo_token demo_address ''0xSpender''],
                              transactions = []\<rparr>)"
    by (cases r0) simp
  with b show ?thesis by (simp add: r0_def r1_def)
qed

section \<open>Quote failures\<close>

lemma buy_no_liquidity:
  assumes "buyToken w u t a (init tbl) = (res, s')" "FetchQuote rq \<in> set (trace s')"
    "zerox w rq = Inr resp" "ok resp" "json resp = Inr q" "\<not> liquidityAvailable q"
  shows "res = Inl (TradeError noLiquidityMessage) \<and> (\<forall>e \<in> set (trace s'). \<not> is_broadcast e)
         \<and> transactions s' = tbl"
proof -
  have "wp (buyToken w u t a) (\<lambda>res s'. \<forall>rq resp q. FetchQuote rq \<in> set (trace s') \<and>
      zerox w rq = Inr resp \<and> ok resp \<and> json resp = Inr q \<and> \<not> liquidityAvailable q \<longrightarrow>
      res = Inl (TradeError noLiquidityMessage) \<and> (\<forall>e \<in> set (trace s'). \<not> is_broadcast e)
         \<and> transactions s' = tbl) (init tbl)"
    by (simp add: buyToken_def wp_rules quote_result Let_def
          split: sum.split prod.split option.split)
  from wpD [OF this assms(1)] assms(2-) show ?thesis by blast
qed

lemma sell_no_liquidity:
  assumes "sellToken w u t a (init tbl) = (res, s')" "FetchQuote rq \<in> set (trace s')"
    "zerox w rq = Inr resp" "ok resp" "json resp = Inr q" "\<not> liquidityAvailable q"
  shows "res = Inl (TradeError noLiquidityMessage) \<and> (\<forall>e \<in> set (trace s'). \<not> is_broadcast e)
         \<and> transactions s' = tbl"
proof -
  have "wp (sellToken w u t a) (\<lambda>res s'. \<forall>rq resp q. FetchQuote rq \<in> set (trace s') \<and>
      zerox w rq = Inr resp \<and> ok resp \<and> json resp = Inr q \<and> \<not> liquidityAvailable q \<longrightarrow>
      res = Inl (TradeError noLiquidityMessage) \<and> (\<forall>e \<in> set (trace s'). \<not> is_broadcast e)
         \<and> transactions s' = tbl) (init tbl)"
    by (simp add: sellToken_def wp_rules quote_result Let_def
          split: sum.split prod.split option.split)
  from wpD [OF this assms(1)] assms(2-) show ?thesis by blast
qed

lemma fetchQuote_run:
  "fetchQuote w p s = (fst (fetchQuote w p s), s\<lparr>trace := trace s @ [FetchQuote (quoteRequest w p)]\<rparr>)"
  by (simp add: fetchQuote_def io_defs Let_def split: sum.split)

text \<open>
  C4. When the quote service answers with \<open>liquidityAvailable\<close> false, \<open>fetchQuote\<close>
  throws the no-liquidity \<open>TradeError\<close>, a user error with code \<open>TRADE_ERROR\<close> and so
  neither a \<open>NetworkError\<close> nor a plain \<open>Error\<close>; a buy or sell that received this answer
  ends in that error, has handed no transaction to the chain, and has left the
  transactions table as it was.
\<close>

theorem no_liquidity_is_trade_error:
  "(zerox w (quoteRequest w p) = Inr resp \<and> ok resp \<and> json resp = Inr q \<and> \<not> liquidityAvailable q
      \<longrightarrow> fetchQuote w p s = (Inl (TradeError noLiquidityMessage),
                              s\<lparr>trace := trace s @ [FetchQuote (quoteRequest w p)]\<rparr>))
   \<and> (\<forall>rq resp q.
        buyToken w u t a (init tbl) = (res, s') \<and> FetchQuote rq \<in> set (trace s')
        \<and> zerox w rq = Inr resp \<and> ok resp \<and> json resp = Inr q \<and> \<not> liquidityAvailable q
        \<longrightarrow> res = Inl (TradeError noLiquidityMessage)
            \<and> (\<forall>e \<in> set (trace s'). \<not> is_broadcast e) \<and> transactions s' = tbl)
   \<and> (\<forall>rq resp q.
        sellToken w u t a (init tbl) = (res2, s2) \<and> FetchQuote rq \<in> set (trace s2)
        \<and> zerox w rq = Inr resp \<and> ok resp \<and> json resp = Inr q \<and> \<not> liquidityAvailable q
        \<longrightarrow> res2 = Inl (TradeError noLiquidityMessage)
            \<and> (\<forall>e \<in> set (trace s2). \<not> is_broadcast e) \<and> transactions s2 = tbl)
   \<and> isUserError (TradeError noLiquidityMessage)
   \<and> error_code (TradeError noLiquidityMessage) = Some ''TRADE_ERROR''
   \<and> (\<forall>m. TradeError noLiquidityMessage \<noteq> NetworkError m)
   \<and> (\<forall>m. TradeError noLiquidityMessage \<noteq> PlainError m)"
proof -
  have "zerox w (quoteRequest w p) = Inr resp \<and> ok resp \<and> json resp = Inr q \<and> \<not> liquidityAvailable q
      \<longrightarrow> fetchQuote w p s = (Inl (TradeError noLiquidityMessage),
                              s\<lparr>trace := trace s @ [FetchQuote (quoteRequest w p)]\<rparr>)"
    using fetchQuote_run [of w p s] by (auto simp: quote_result)
  then show ?thesis
    using buy_no_liquidity [of w u t a tbl res s'] sell_no_liquidity [of w u t a tbl res2 s2]
    by (simp del: set_ConsD) blast
qed

theorem no_liquidity_is_trade_error_witness:
  "fst (buyToken demo_no_liquidity ''42'' demo_token (1 / 10000) (init []))
     = Inl (TradeError noLiquidityMessage)
   \<and> filter is_broadcast (trace (snd (buyToken demo_no_liquidity ''42'' demo_token (1 / 10000) (init [])))) = []
   \<and> fst (sellToken demo_no_liquidity ''42'' demo_token (1 / 10000) (init []))
     = Inl (TradeError noLiquidityMessage)
   \<and> filter is_broadcast (trace (snd (sellToken demo_no_liquidity ''42'' demo_token (1 / 10000) (init [])))) = []"
proof -
  define pb where "pb = [(''buyToken'', demo_token), (''sellToken'', ethNative),
     (''sellAmount'', show_int 100000000000000), (''taker'', demo_address)]"
  define ps where "ps = [(''buyToken'', ethNative), (''sellToken'', demo_token),
     (''sellAmount'', show_int 100000000000000), (''taker'', demo_address)]"
  define nq where "nq = demo_quote\<lparr>liquidityAvailable := False\<rparr>"
  define resp where "resp = \<lparr>ok = True, http_status = 200, json = Inr nq\<rparr>"
  define rb where "rb = buyToken demo_no_liquidity ''42'' demo_token (1 / 10000) (init [])"
  define rs where "rs = sellToken demo_no_liquidity ''42'' demo_token (1 / 10000) (init [])"
  have sg: "fst (getSignerForUser demo_no_liquidity ''42'' (init [])) = Inr demo_signer"
    by (rule demo_signer_result) (simp_all add: demo_no_liquidity_def demo_def)
  have meta: "fst (tokenMeta demo_no_liquidity demo_token (init [])) = Inr (18, ''DEMO'', None)"
    using meta_result [of demo_no_liquidity demo_token 18 "\<lparr>dex_ok = True, dex_pairs = []\<rparr>" "init []"]
    by (simp add: demo_no_liquidity_def demo_def symbolOf_def priceOf_def)
  have world: "parseUnits demo_no_liquidity = parseUnits_exact"
    "zerox demo_no_liquidity = (\<lambda>rq. Inr resp)"
    by (simp_all add: demo_no_liquidity_def demo_def resp_def nq_def)
  have "wp (buyToken demo_no_liquidity ''42'' demo_token (1 / 10000))
          (\<lambda>r s. FetchQuote (quoteRequest demo_no_liquidity pb) \<in> set (trace s)) (init [])"
    by (simp add: buyToken_def wp_rules Let_def sg meta world demo_parse quote_result
          demo_signer_def resp_def nq_def pb_def)
  then have tb: "FetchQuote (quoteRequest demo_no_liquidity pb) \<in> set (trace (snd rb))"
    by (simp add: wp_def rb_def split: prod.splits)
  have "wp (sellToken demo_no_liquidity ''42'' demo_token (1 / 10000))
          (\<lambda>r s. FetchQuote (quoteRequest demo_no_liquidity ps) \<in> set (trace s)) (init [])"
    by (simp add: sellToken_def wp_rules Let_def sg meta world demo_parse quote_result
          demo_signer_def resp_def nq_def ps_def)
  then have ts: "FetchQuote (quoteRequest demo_no_liquidity ps) \<in> set (trace (snd rs))"
    by (simp add: wp_def rs_def split: prod.splits)
  have facts: "ok resp" "json resp = Inr nq" "\<not> liquidityAvailable nq"
    by (simp_all add: resp_def nq_def)
  from no_liquidity_is_trade_error
         [of demo_no_liquidity pb resp nq "init []" "''42''" demo_token "1 / 10000" "[]"
             "fst rb" "snd rb" "fst rs" "snd rs"]
  have "fst rb = Inl (TradeError noLiquidityMessage) \<and> (\<forall>e \<in> set (trace (snd rb)). \<not> is_broadcast e)
      \<and> fst rs = Inl (TradeError noLiquidityMessage) \<and> (\<forall>e \<in> set (trace (snd rs)). \<not> is_broadcast e)"
    using tb ts facts by (simp add: rb_def rs_def world) blast
  then show ?thesis by (simp add: rb_def rs_def filter_empty_conv)
qed

text \<open>
  C5 as stated does not hold: on HTTP 500 \<open>fetchQuote\<close> throws a plain \<open>Error\<close>, which
  carries no error code, and not a \<open>NetworkError\<close>.
\<close>

theorem http_failure_is_not_network_error:
  "fst (fetchQuote demo_http_500 [] (init [])) = Inl (PlainError ''0x quote error 500'')
   \<and> fst (fetchQuote demo_http_500 [] (init [])) \<noteq> Inl (NetworkError ''0x quote error 500'')
   \<and> error_code (PlainError ''0x quote error 500'') \<noteq> Some ''NETWORK_ERROR''"
  by (simp add: quote_result demo_http_500_def demo_def show_nat.simps char_of_def bit_Suc_0_iff)

text \<open>
  C5, amended. When the quote service answers with a non-success HTTP status,
  \<open>fetchQuote\<close> throws a plain \<open>Error\<close> whose message is \<^verbatim>\<open>0x quote error\<close> followed by
  the status. It is not a user error and has no code, so it differs from the
  no-liquidity \<open>TradeError\<close>, whose code is \<open>TRADE_ERROR\<close>.
\<close>

theorem http_failure_is_plain_error:
  assumes "zerox w (quoteRequest w p) = Inr resp" and "\<not> ok resp"
  shows "fetchQuote w p s = (Inl (PlainError (''0x quote error '' @ show_nat (http_status resp))),
                            s\<lparr>trace := trace s @ [FetchQuote (quoteRequest w p)]\<rparr>)
       \<and> \<not> isUserError (PlainError (''0x quote error '' @ show_nat (http_status resp)))
       \<and> error_code (PlainError (''0x quote error '' @ show_nat (http_status resp))) = None
       \<and> isUserError (TradeError noLiquidityMessage)
       \<and> error_code (TradeError noLiquidityMessage) = Some ''TRADE_ERROR''
       \<and> PlainError (''0x quote error '' @ show_nat (http_status resp)) \<noteq> TradeError noLiquidityMessage"
  using assms fetchQuote_run [of w p s] by (simp add: quote_result)

theorem http_failure_is_plain_error_witness:
  "fetchQuote demo_http_500 [] (init [])
     = (Inl (PlainError ''0x quote error 500''),
        \<lparr>trace = [FetchQuote (quoteRequest demo_http_500 [])], transactions = []\<rparr>)"
proof -
  define resp where "resp = \<lparr>ok = False, http_status = 500,
                               json = Inl (ExternalError ''Unexpected end of JSON input'')\<rparr>"
  have z: "zerox demo_http_500 (quoteRequest demo_http_500 []) = Inr resp"
    by (simp add: demo_http_500_def demo_def resp_def)
  have nok: "\<not> ok resp"
    by (simp add: resp_def)
  have "show_nat 500 = ''500''"
    by (simp add: show_nat.simps char_of_def bit_Suc_0_iff)
  with http_failure_is_plain_error [OF z nok, of "init []"] show ?thesis
    by (simp add: resp_def init_def)
qed

section \<open>The amount check\<close>

text \<open>
  C7 as stated does not hold: a buy of amount 0 is rejected only after the wallet lookup,
  the two token-metadata reads and the price fetch have been issued.
\<close>

theorem zero_amount_reaches_network:
  "buyToken demo ''42'' demo_token 0 (init [])
     = (Inl (PlainError ''Amount too small. Increase amount.''),
        \<lparr>trace = [DbSelectWallet ''42'', RpcDecimals demo_token, RpcSymbol demo_token,
                  FetchDexScreener (priceUrl demo demo_token)],
         transactions = []\<rparr>)"
proof -
  have sg: "fst (getSignerForUser demo ''42'' (init [])) = Inr demo_signer"
    by (rule demo_signer_result) (simp_all add: demo_def)
  have meta: "fst (tokenMeta demo demo_token (init [])) = Inr (18, ''DEMO'', None)"
    using meta_result [of demo demo_token 18 "\<lparr>dex_ok = True, dex_pairs = []\<rparr>" "init []"]
    by (simp add: demo_def symbolOf_def priceOf_def)
  have world: "parseUnits demo = parseUnits_exact"
    by (simp add: demo_def)
  have "wp (buyToken demo ''42'' demo_token 0)
          (\<lambda>r s. r = Inl (PlainError ''Amount too small. Increase amount.'')
             \<and> s = (init [])\<lparr>trace := [DbSelectWallet ''42'', RpcDecimals demo_token,
                                         RpcSymbol demo_token,
                                         FetchDexScreener (priceUrl demo demo_token)]\<rparr>) (init [])"
    by (simp add: buyToken_def wp_rules Let_def sg meta world demo_parse)
  then show ?thesis
    by (simp add: wp_def init_def split: prod.splits)
qed

lemma buy_amount_too_small:
  assumes "wallets w u = Some row"
    and "decryptPrivateKey (cipher w) (cfg w) (encrypted_private_key row) = Inr pk"
    and "newWallet w pk = Inr addr"
    and "erc20_decimals w t = Inr d" and "dexscreener w (priceUrl w t) = Inr dx"
    and "parseUnits w a 18 = Inr raw" and "raw \<le> 0"
  shows "buyToken w u t a (init tbl)
           = (Inl (PlainError ''Amount too small. Increase amount.''),
              \<lparr>trace = describeCalls w u t, transactions = tbl\<rparr>)"
proof -
  have "wp (buyToken w u t a)
          (\<lambda>r s. r = Inl (PlainError ''Amount too small. Increase amount.'')
                    \<and> s = (init tbl)\<lparr>trace := describeCalls w u t\<rparr>) (init tbl)"
    using assms(6,7)
    by (simp add: buyToken_def wp_rules Let_def signer_result [OF assms(1-3)]
          meta_result [OF assms(4,5)] describeCalls_def)
  then show ?thesis
    by (simp add: wp_def init_def split: prod.splits)
qed

lemma sell_amount_too_small:
  assumes "wallets w u = Some row"
    and "decryptPrivateKey (cipher w) (cfg w) (encrypted_private_key row) = Inr pk"
    and "newWallet w pk = Inr addr"
    and "erc20_decimals w t = Inr d" and "dexscreener w (priceUrl w t) = Inr dx"
    and "parseUnits w a d = Inr raw" and "raw \<le> 0"
  shows "sellToken w u t a (init tbl)
           = (Inl (TradeError ''Amount too small. Increase amount.''),
              \<lparr>trace = describeCalls w u t, transactions = tbl\<rparr>)"
proof -
  have "wp (sellToken w u t a)
          (\<lambda>r s. r = Inl (TradeError ''Amount too small. Increase amount.'')
                    \<and> s = (init tbl)\<lparr>trace := describeCalls w u t\<rparr>) (init tbl)"
    using assms(6,7)
    by (simp add: sellToken_def wp_rules Let_def signer_result [OF assms(1-3)]
          meta_result [OF assms(4,5)] describeCalls_def)
  then show ?thesis
    by (simp add: wp_def init_def split: prod.splits)
qed

text \<open>
  C7, amended. For a buy or a sell whose signer was resolved and whose token metadata was
  read: when the amount normalizes to a raw amount that is not strictly positive, the
  trade is rejected with the amount-too-small error (a plain \<open>Error\<close> in \<open>buyToken\<close>, a
  \<open>TradeError\<close> in \<open>sellToken\<close>) after exactly four calls, the wallet lookup, the
  decimals read, the symbol read and the price fetch: no quote is fetched, no
  transaction is sent and nothing is written.
\<close>

theorem nonpositive_amount_rejected_before_quote:
  assumes "wallets w u = Some row"
    and "decryptPrivateKey (cipher w) (cfg w) (encrypted_private_key row) = Inr pk"
    and "newWallet w pk = Inr addr"
    and "erc20_decimals w t = Inr d" and "dexscreener w (priceUrl w t) = Inr dx"
  shows "(parseUnits w a 18 = Inr raw \<and> raw \<le> 0 \<longrightarrow>
            buyToken w u t a (init tbl)
              = (Inl (PlainError ''Amount too small. Increase amount.''),
                 \<lparr>trace = describeCalls w u t, transactions = tbl\<rparr>))
       \<and> (parseUnits w a d = Inr raw \<and> raw \<le> 0 \<longrightarrow>
            sellToken w u t a (init tbl)
              = (Inl (TradeError ''Amount too small. Increase amount.''),
                 \<lparr>trace = describeCalls w u t, transactions = tbl\<rparr>))"
  using buy_amount_too_small [OF assms, of a raw tbl] sell_amount_too_small [OF assms, of a raw tbl]
  by blast

theorem nonpositive_amount_rejected_before_quote_witness:
  "buyToken demo ''42'' demo_token 0 (init [])
     = (Inl (PlainError ''Amount too small. Increase amount.''),
        \<lparr>trace = describeCalls demo ''42'' demo_token, transactions = []\<rparr>)
   \<and> sellToken demo ''42'' demo_token 0 (init [])
     = (Inl (TradeError ''Amount too small. Increase amount.''),
        \<lparr>trace = describeCalls demo ''42'' demo_token, transactions = []\<rparr>)"
proof -
  have 1: "wallets demo ''42'' = Some \<lparr>address = demo_address, encrypted_private_key = demo_envelope\<rparr>"
    by (simp add: demo_def)
  have 2: "decryptPrivateKey (cipher demo) (cfg demo)
             (encrypted_private_key \<lparr>address = demo_address, encrypted_private_key = demo_envelope\<rparr>)
           = Inr demo_pk"
    using demo_decrypt by (simp add: demo_def)
  have 3: "newWallet demo demo_pk = Inr demo_address"
    by (simp add: demo_def)
  have 4: "erc20_decimals demo demo_token = Inr 18"
    by (simp add: demo_def)
  have 5: "dexscreener demo (priceUrl demo demo_token) = Inr \<lparr>dex_ok = True, dex_pairs = []\<rparr>"
    by (simp add: demo_def)
  have 6: "parseUnits demo 0 18 = Inr 0"
    by (simp add: demo_def demo_parse)
  from nonpositive_amount_rejected_before_quote [OF 1 2 3 4 5, of 0 0 "[]"] 6
  show ?thesis by simp
qed

section \<open>A successful buy\<close>

text \<open>
  C8. A buy of a token with 18 decimals, every step of which succeeds, whose quote
  carries \<open>buyAmount = 2000000000000000000\<close> and whose receipt has status 1, returns
  \<open>tokensReceived = 2\<close> and appends exactly one row to the transactions table: the
  user, the token's symbol, amount 2, the price read, order type buy.
\<close>

theorem buy_scenario_records_two_tokens:
  assumes "wallets w u = Some row"
    and "decryptPrivateKey (cipher w) (cfg w) (encrypted_private_key row) = Inr pk"
    and "newWallet w pk = Inr addr"
    and "erc20_decimals w t = Inr 18" and "dexscreener w (priceUrl w t) = Inr dx"
    and "parseUnits w a 18 = Inr raw" and "0 < raw"
    and "zerox w (quoteRequest w [(''buyToken'', t), (''sellToken'', ethNative),
                                  (''sellAmount'', show_int raw), (''taker'', addr)]) = Inr resp"
    and "ok resp" and "json resp = Inr q" and "liquidityAvailable q"
    and "\<not> missingTransaction q" and "buyAmount q = Some (Num 2000000000000000000)"
    and "BigInt (quote_value q) = Inr v"
    and "sendTransaction w addr \<lparr>tx_to = quote_to q, tx_data = quote_data q, tx_value = v\<rparr> = Inr h"
    and "wait w h = Inr rc" and "succeeded rc"
    and "insert_transaction w \<lparr>telegram_user_id = u, symbol = symbolOf w t, amount = 2,
                                price_usd = priceOf dx, order_type = Buy, date = now w\<rparr> = None"
  shows "buyToken w u t a (init tbl)
           = (Inr \<lparr>b_hash = h, b_symbol = symbolOf w t, tokensReceived = 2, ethSpent = a,
                   b_priceUsd = priceOf dx\<rparr>,
              \<lparr>trace = describeCalls w u t @
                  [FetchQuote (quoteRequest w [(''buyToken'', t), (''sellToken'', ethNative),
                                               (''sellAmount'', show_int raw), (''taker'', addr)]),
                   TxSend addr \<lparr>tx_to = quote_to q, tx_data = quote_data q, tx_value = v\<rparr>,
                   TxWait h,
                   DbInsertTransaction
                     \<lparr>telegram_user_id = u, symbol = symbolOf w t, amount = 2,
                      price_usd = priceOf dx, order_type = Buy, date = now w\<rparr>],
               transactions = tbl @
                  [\<lparr>telegram_user_id = u, symbol = symbolOf w t, amount = 2,
                    price_usd = priceOf dx, order_type = Buy, date = now w\<rparr>]\<rparr>)"
proof -
  have two: "formatUnitsJ (Num 2000000000000000000) 18 = Inr 2"
    by (simp add: formatUnitsJ_def formatUnits_def)
  have "wp (buyToken w u t a)
          (\<lambda>r s. r = Inr \<lparr>b_hash = h, b_symbol = symbolOf w t, tokensReceived = 2, ethSpent = a,
                           b_priceUsd = priceOf dx\<rparr>
             \<and> s = (init tbl)
                 \<lparr>trace := describeCalls w u t @
                  [FetchQuote (quoteRequest w [(''buyToken'', t), (''sellToken'', ethNative),
                                               (''sellAmount'', show_int raw), (''taker'', addr)]),
                   TxSend addr \<lparr>tx_to = quote_to q, tx_data = quote_data q, tx_value = v\<rparr>,
                   TxWait h,
                   DbInsertTransaction
                     \<lparr>telegram_user_id = u, symbol = symbolOf w t, amount = 2,
                      price_usd = priceOf dx, order_type = Buy, date = now w\<rparr>],
                  transactions := tbl @
                  [\<lparr>telegram_user_id = u, symbol = symbolOf w t, amount = 2,
                    price_usd = priceOf dx, order_type = Buy, date = now w\<rparr>]\<rparr>) (init tbl)"
    using assms(6-)
    by (simp add: buyToken_def wp_rules Let_def signer_result [OF assms(1-3)]
          meta_result [OF assms(4,5)] quote_result describeCalls_def two)
  then show ?thesis
    by (simp add: wp_def init_def split: prod.splits)
qed

theorem buy_scenario_records_two_tokens_witness:
  "fst (buyToken demo ''42'' demo_token (1 / 10000) (init []))
     = Inr \<lparr>b_hash = ''0xb2'', b_symbol = ''DEMO'', tokensReceived = 2, ethSpent = 1 / 10000,
            b_priceUsd = None\<rparr>
   \<and> transactions (snd (buyToken demo ''42'' demo_token (1 / 10000) (init [])))
     = [\<lparr>telegram_user_id = ''42'', symbol = ''DEMO'', amount = 2, price_usd = None,
         order_type = Buy, date = ''2025-01-01T00:00:00.000Z''\<rparr>]"
proof -
  have 1: "wallets demo ''42'' = Some \<lparr>address = demo_address, encrypted_private_key = demo_envelope\<rparr>"
    by (simp add: demo_def)
  have 2: "decryptPrivateKey (cipher demo) (cfg demo)
             (encrypted_private_key \<lparr>address = demo_address, encrypted_private_key = demo_envelope\<rparr>)
           = Inr demo_pk"
    using demo_decrypt by (simp add: demo_def)
  have 3: "newWallet demo demo_pk = Inr demo_address"
    by (simp add: demo_def)
  have 4: "erc20_decimals demo demo_token = Inr 18"
    by (simp add: demo_def)
  have 5: "dexscreener demo (priceUrl demo demo_token) = Inr \<lparr>dex_ok = True, dex_pairs = []\<rparr>"
    by (simp add: demo_def)
  have 6: "parseUnits demo (1 / 10000) 18 = Inr 100000000000000"
    by (simp add: demo_def demo_parse)
  have 7: "(0::int) < 100000000000000"
    by simp
  have 8: "zerox demo (quoteRequest demo [(''buyToken'', demo_token), (''sellToken'', ethNative),
             (''sellAmount'', show_int 100000000000000), (''taker'', demo_address)])
           = Inr \<lparr>ok = True, http_status = 200, json = Inr demo_quote\<rparr>"
    by (simp add: demo_def)
  have 9: "ok \<lparr>ok = True, http_status = 200, json = Inr demo_quote\<rparr>"
    and 10: "json \<lparr>ok = True, http_status = 200, json = Inr demo_quote\<rparr> = Inr demo_quote"
    by simp_all
  have 14: "BigInt (quote_value demo_quote) = Inr 100000000000000"
    by (simp add: demo_quote_fields BigInt_def)
  have 15: "sendTransaction demo demo_address
              \<lparr>tx_to = quote_to demo_quote, tx_data = quote_data demo_quote,
               tx_value = 100000000000000\<rparr> = Inr ''0xb2''"
    by (simp add: demo_def)
  have 16: "wait demo ''0xb2'' = Inr (Some \<lparr>status = Some 1\<rparr>)"
    by (simp add: demo_def)
  have 17: "succeeded (Some \<lparr>status = Some 1\<rparr>)"
    by (simp add: succeeded_def)
  have 18: "insert_transaction demo
              \<lparr>telegram_user_id = ''42'', symbol = symbolOf demo demo_token, amount = 2,
               price_usd = priceOf \<lparr>dex_ok = True, dex_pairs = []\<rparr>, order_type = Buy,
               date = now demo\<rparr> = None"
    by (simp add: demo_def)
  have sym: "symbolOf demo demo_token = ''DEMO''"
    "priceOf \<lparr>dex_ok = True, dex_pairs = []\<rparr> = None" "now demo = ''2025-01-01T00:00:00.000Z''"
    by (simp_all add: symbolOf_def priceOf_def demo_def)
  from buy_scenario_records_two_tokens
         [OF 1 2 3 4 5 6 7 8 9 10 demo_quote_fields(5) demo_quote_fields(4) demo_quote_fields(7)
             14 15 16 17 18, of "[]"]
  show ?thesis by (simp add: sym)
qed

section \<open>The allowance step of a sell\<close>

lemma sell_no_allowance_steps:
  assumes "sellToken w u t a (init tbl) = (res, s')" "FetchQuote rq \<in> set (trace s')"
    "zerox w rq = Inr resp" "json resp = Inr q" "allowanceTarget q = None"
  shows "\<forall>e \<in> set (trace s'). \<not> is_allowance_step e"
proof -
  have "wp (sellToken w u t a) (\<lambda>res s'. \<forall>rq resp q. FetchQuote rq \<in> set (trace s') \<and>
      zerox w rq = Inr resp \<and> json resp = Inr q \<and> allowanceTarget q = None \<longrightarrow>
      (\<forall>e \<in> set (trace s'). \<not> is_allowance_step e)) (init tbl)"
    by (simp add: sellToken_def wp_rules quote_result Let_def truthy_def
          split: sum.split prod.split option.split)
  from wpD [OF this assms(1)] assms(2-) show ?thesis by blast
qed

lemma sell_submits_without_allowance:
  assumes "wallets w u = Some row"
    and "decryptPrivateKey (cipher w) (cfg w) (encrypted_private_key row) = Inr pk"
    and "newWallet w pk = Inr addr"
    and "erc20_decimals w t = Inr d" and "dexscreener w (priceUrl w t) = Inr dx"
    and "parseUnits w a d = Inr raw" and "0 < raw"
    and "zerox w (quoteRequest w [(''buyToken'', ethNative), (''sellToken'', t),
                                  (''sellAmount'', show_int raw), (''taker'', addr)]) = Inr resp"
    and "ok resp" and "json resp = Inr q" and "liquidityAvailable q"
    and "\<not> missingTransaction q" and "allowanceTarget q = None"
    and "BigInt (quote_value q) = Inr v"
    and "sellToken w u t a (init tbl) = (res, s')"
  shows "\<exists>rest. trace s' = describeCalls w u t @
            [FetchQuote (quoteRequest w [(''buyToken'', ethNative), (''sellToken'', t),
                                         (''sellAmount'', show_int raw), (''taker'', addr)]),
             TxSend addr \<lparr>tx_to = quote_to q, tx_data = quote_data q, tx_value = v\<rparr>] @ rest"
proof -
  have "wp (sellToken w u t a)
          (\<lambda>r s. take 6 (trace s) = describeCalls w u t @
            [FetchQuote (quoteRequest w [(''buyToken'', ethNative), (''sellToken'', t),
                                         (''sellAmount'', show_int raw), (''taker'', addr)]),
             TxSend addr \<lparr>tx_to = quote_to q, tx_data = quote_data q, tx_value = v\<rparr>]) (init tbl)"
    using assms(6-14)
    by (simp add: sellToken_def wp_rules Let_def signer_result [OF assms(1-3)]
          meta_result [OF assms(4,5)] quote_result describeCalls_def truthy_def
          split: sum.split option.split)
  from wpD [OF this assms(15)] have "take 6 (trace s') = describeCalls w u t @
            [FetchQuote (quoteRequest w [(''buyToken'', ethNative), (''sellToken'', t),
                                         (''sellAmount'', show_int raw), (''taker'', addr)]),
             TxSend addr \<lparr>tx_to = quote_to q, tx_data = quote_data q, tx_value = v\<rparr>]" .
  then have "trace s' = (describeCalls w u t @
            [FetchQuote (quoteRequest w [(''buyToken'', ethNative), (''sellToken'', t),
                                         (''sellAmount'', show_int raw), (''taker'', addr)]),
             TxSend addr \<lparr>tx_to = quote_to q, tx_data = quote_data q, tx_value = v\<rparr>])
            @ drop 6 (trace s')"
    using append_take_drop_id [of 6 "trace s'"] by simp
  then show ?thesis by auto
qed

text \<open>
  C10. In \<open>sellToken\<close> a quote without \<open>allowanceTarget\<close> leads to no allowance read and
  no approval; and when the steps up to the quote succeed and the quote carries a
  transaction, the swap is the next call after the quote fetch.
\<close>

theorem sell_without_allowance_target:
  "(\<forall>rq resp q.
      sellToken w u t a (init tbl) = (res, s') \<and> FetchQuote rq \<in> set (trace s')
      \<and> zerox w rq = Inr resp \<and> json resp = Inr q \<and> allowanceTarget q = None
      \<longrightarrow> (\<forall>e \<in> set (trace s'). \<not> is_allowance_step e))
   \<and> (\<forall>row pk addr d dx raw resp q v.
      wallets w u = Some row
      \<and> decryptPrivateKey (cipher w) (cfg w) (encrypted_private_key row) = Inr pk
      \<and> newWallet w pk = Inr addr
      \<and> erc20_decimals w t = Inr d \<and> dexscreener w (priceUrl w t) = Inr dx
      \<and> parseUnits w a d = Inr raw \<and> 0 < raw
      \<and> zerox w (quoteRequest w [(''buyToken'', ethNative), (''sellToken'', t),
                                  (''sellAmount'', show_int raw), (''taker'', addr)]) = Inr resp
      \<and> ok resp \<and> json resp = Inr q \<and> liquidityAvailable q
      \<and> \<not> missingTransaction q \<and> allowanceTarget q = None
      \<and> BigInt (quote_value q) = Inr v
      \<and> sellToken w u t a (init tbl) = (res, s')
      \<longrightarrow> (\<exists>rest. trace s' = describeCalls w u t @
            [FetchQuote (quoteRequest w [(''buyToken'', ethNative), (''sellToken'', t),
                                         (''sellAmount'', show_int raw), (''taker'', addr)]),
             TxSend addr \<lparr>tx_to = quote_to q, tx_data = quote_data q, tx_value = v\<rparr>] @ rest))"
proof (intro conjI allI impI)
  fix rq resp q
  assume "sellToken w u t a (init tbl) = (res, s') \<and> FetchQuote rq \<in> set (trace s')
      \<and> zerox w rq = Inr resp \<and> json resp = Inr q \<and> allowanceTarget q = None"
  then show "\<forall>e \<in> set (trace s'). \<not> is_allowance_step e"
    using sell_no_allowance_steps [of w u t a tbl res s' rq resp q] by blast
next
  fix row pk addr d dx raw resp q v
  assume "wallets w u = Some row
      \<and> decryptPrivateKey (cipher w) (cfg w) (encrypted_private_key row) = Inr pk
      \<and> newWallet w pk = Inr addr
      \<and> erc20_decimals w t = Inr d \<and> dexscreener w (priceUrl w t) = Inr dx
      \<and> parseUnits w a d = Inr raw \<and> 0 < raw
      \<and> zerox w (quoteRequest w [(''buyToken'', ethNative), (''sellToken'', t),
                                  (''sellAmount'', show_int raw), (''taker'', addr)]) = Inr resp
      \<and> ok resp \<and> json resp = Inr q \<and> liquidityAvailable q
      \<and> \<not> missingTransaction q \<and> allowanceTarget q = None
      \<and> BigInt (quote_value q) = Inr v
      \<and> sellToken w u t a (init tbl) = (res, s')"
  then show "\<exists>rest. trace s' = describeCalls w u t @
            [FetchQuote (quoteRequest w [(''buyToken'', ethNative), (''sellToken'', t),
                                         (''sellAmount'', show_int raw), (''taker'', addr)]),
             TxSend addr \<lparr>tx_to = quote_to q, tx_data = quote_data q, tx_value = v\<rparr>] @ rest"
    using sell_submits_without_allowance [of w u row pk addr t d dx a raw resp q v tbl res s']
    by blast
qed

theorem sell_without_allowance_target_witness:
  "filter is_allowance_step (trace (snd (sellToken demo ''42'' demo_token (1 / 10000) (init [])))) = []
   \<and> TxSend demo_address \<lparr>tx_to = quote_to demo_quote, tx_data = quote_data demo_quote,
                           tx_value = 100000000000000\<rparr>
       \<in> set (trace (snd (sellToken demo ''42'' demo_token (1 / 10000) (init []))))"
proof -
  define rs where "rs = sellToken demo ''42'' demo_token (1 / 10000) (init [])"
  define ps where "ps = [(''buyToken'', ethNative), (''sellToken'', demo_token),
     (''sellAmount'', show_int 100000000000000), (''taker'', demo_address)]"
  define resp where "resp = \<lparr>ok = True, http_status = 200, json = Inr demo_quote\<rparr>"
  have run: "sellToken demo ''42'' demo_token (1 / 10000) (init []) = (fst rs, snd rs)"
    by (simp add: rs_def)
  have 1: "wallets demo ''42'' = Some \<lparr>address = demo_address, encrypted_private_key = demo_envelope\<rparr>"
    by (simp add: demo_def)
  have 2: "decryptPrivateKey (cipher demo) (cfg demo)
             (encrypted_private_key \<lparr>address = demo_address, encrypted_private_key = demo_envelope\<rparr>)
           = Inr demo_pk"
    using demo_decrypt by (simp add: demo_def)
  have 3: "newWallet demo demo_pk = Inr demo_address"
    by (simp add: demo_def)
  have 4: "erc20_decimals demo demo_token = Inr 18"
    by (simp add: demo_def)
  have 5: "dexscreener demo (priceUrl demo demo_token) = Inr \<lparr>dex_ok = True, dex_pairs = []\<rparr>"
    by (simp add: demo_def)
  have 6: "parseUnits demo (1 / 10000) 18 = Inr 100000000000000"
    by (simp add: demo_def demo_parse)
  have 7: "(0::int) < 100000000000000"
    by simp
  have 8: "zerox demo (quoteRequest demo ps) = Inr resp"
    by (simp add: demo_def resp_def)
  have 9: "ok resp" and 10: "json resp = Inr demo_quote"
    by (simp_all add: resp_def)
  have 14: "BigInt (quote_value demo_quote) = Inr 100000000000000"
    by (simp add: demo_quote_fields BigInt_def)
  from sell_without_allowance_target [of demo "''42''" demo_token "1 / 10000" "[]" "fst rs" "snd rs"]
  have general: "\<forall>rq resp q.
      FetchQuote rq \<in> set (trace (snd rs)) \<and> zerox demo rq = Inr resp \<and> json resp = Inr q
      \<and> allowanceTarget q = None \<longrightarrow> (\<forall>e \<in> set (trace (snd rs)). \<not> is_allowance_step e)"
    and submitted: "\<exists>rest. trace (snd rs) = describeCalls demo ''42'' demo_token @
            [FetchQuote (quoteRequest demo ps),
             TxSend demo_address \<lparr>tx_to = quote_to demo_quote, tx_data = quote_data demo_quote,
                                  tx_value = 100000000000000\<rparr>] @ rest"
    using run 1 2 3 4 5 6 7 8 9 10 14 demo_quote_fields(4,5,6) unfolding ps_def
    by blast+
  from submitted have fq: "FetchQuote (quoteRequest demo ps) \<in> set (trace (snd rs))"
    and tx: "TxSend demo_address \<lparr>tx_to = quote_to demo_quote, tx_data = quote_data demo_quote,
                                  tx_value = 100000000000000\<rparr> \<in> set (trace (snd rs))"
    by auto
  from general fq 8 10 demo_quote_fields(6)
  have "\<forall>e \<in> set (trace (snd rs)). \<not> is_allowance_step e"
    by blast
  with tx show ?thesis
    by (simp add: rs_def filter_empty_conv)
qed

section \<open>The encodings invert\<close>

lemma unat_byte: "unat (b :: byte) < 256"
  using unsigned_less [of b] by simp

lemma unat_of_nat_byte: "n < 256 \<Longrightarrow> unat (of_nat n :: byte) = n"
  by (simp add: unat_of_nat)

lemma b64val_b64char: "n < 64 \<Longrightarrow> b64val (b64char n) = Some n"
  by (auto simp: b64val_def b64char_def Let_def)

lemma b64val_pad: "b64val CHR ''='' = None"
  by (simp add: b64val_def)

lemma recombine3:
  "(n::nat) div 262144 * 262144 + n div 4096 mod 64 * 4096 + n div 64 mod 64 * 64 + n mod 64 = n"
proof -
  have a: "n div 4096 = n div 64 div 64" by (simp add: div_mult2_eq)
  have b: "n div 262144 = n div 64 div 64 div 64" by (simp add: div_mult2_eq)
  have 1: "n = 64 * (n div 64) + n mod 64" by simp
  have 2: "n div 64 = 64 * (n div 64 div 64) + n div 64 mod 64" by simp
  have 3: "n div 64 div 64 = 64 * (n div 64 div 64 div 64) + n div 64 div 64 mod 64" by simp
  show ?thesis unfolding a b using 1 2 3 by linarith
qed

lemma recombine2: "(n::nat) div 4096 * 4096 + n div 64 mod 64 * 64 + n mod 64 = n"
proof -
  have a: "n div 4096 = n div 64 div 64" by (simp add: div_mult2_eq)
  have 1: "n = 64 * (n div 64) + n mod 64" by simp
  have 2: "n div 64 = 64 * (n div 64 div 64) + n div 64 mod 64" by simp
  show ?thesis unfolding a using 1 2 by linarith
qed

lemma split3:
  assumes "b < 256" "c < 256"
  shows "((a::nat) * 65536 + b * 256 + c) div 65536 = a"
    "(a * 65536 + b * 256 + c) div 256 mod 256 = b"
    "(a * 65536 + b * 256 + c) mod 256 = c"
proof -
  define k where "k = b + a * 256"
  have e: "a * 65536 + b * 256 + c = c + k * 256" by (simp add: k_def)
  show "(a * 65536 + b * 256 + c) mod 256 = c"
    unfolding e using assms by simp
  have d: "(a * 65536 + b * 256 + c) div 256 = k"
    unfolding e using assms by simp
  show "(a * 65536 + b * 256 + c) div 256 mod 256 = b"
    unfolding d k_def using assms by simp
  show "(a * 65536 + b * 256 + c) div 65536 = a"
    using assms by auto
qed

lemma split2:
  assumes "b < 256"
  shows "((a::nat) * 1024 + b * 4) div 4 div 256 = a" "(a * 1024 + b * 4) div 4 mod 256 = b"
proof -
  have e: "(a * 1024 + b * 4) div 4 = b + a * 256" by simp
  show "(a * 1024 + b * 4) div 4 div 256 = a" unfolding e using assms by simp
  show "(a * 1024 + b * 4) div 4 mod 256 = b" unfolding e using assms by simp
qed

lemma decode_quantum3:
  fixes a b c :: byte
  defines "n \<equiv> unat a * 65536 + unat b * 256 + unat c"
  shows "base64Decode (b64char (n div 262144) # b64char (n div 4096 mod 64) #
                       b64char (n div 64 mod 64) # b64char (n mod 64) # rest)
         = [a, b, c] @ base64Decode rest"
proof -
  have lt: "n < 64 * 262144"
    using unat_byte [of a] unat_byte [of b] unat_byte [of c] by (simp add: n_def)
  then have x: "n div 262144 < 64"
    by (rule less_mult_imp_div_less)
  have "bytes3 (n div 262144) (n div 4096 mod 64) (n div 64 mod 64) (n mod 64) = [a, b, c]"
    unfolding bytes3_def recombine3 Let_def
    using split3 [of "unat b" "unat c" "unat a"] unat_byte [of b] unat_byte [of c]
    by (simp add: n_def)
  then show ?thesis
    using x by (simp add: b64val_b64char)
qed

lemma decode_quantum2:
  fixes a b :: byte
  defines "n \<equiv> unat a * 1024 + unat b * 4"
  shows "base64Decode [b64char (n div 4096), b64char (n div 64 mod 64), b64char (n mod 64),
                       CHR ''=''] = [a, b]"
proof -
  have lt: "n < 64 * 4096"
    using unat_byte [of a] unat_byte [of b] by (simp add: n_def)
  then have x: "n div 4096 < 64"
    by (rule less_mult_imp_div_less)
  have "bytes2 (n div 4096) (n div 64 mod 64) (n mod 64) = [a, b]"
    unfolding bytes2_def recombine2 Let_def
    using split2 [of "unat b" "unat a"] unat_byte [of b]
    by (simp add: n_def)
  then show ?thesis
    using x by (simp add: b64val_b64char b64val_pad)
qed

lemma decode_quantum1:
  fixes a :: byte
  defines "n \<equiv> unat a * 16"
  shows "base64Decode [b64char (n div 64), b64char (n mod 64), CHR ''='', CHR ''=''] = [a]"
proof -
  have lt: "n < 64 * 64"
    using unat_byte [of a] by (simp add: n_def)
  then have x: "n div 64 < 64"
    by (rule less_mult_imp_div_less)
  have "n div 64 * 64 + n mod 64 = n"
    by simp
  then have "bytes1 (n div 64) (n mod 64) = [a]"
    by (simp add: bytes1_def n_def)
  then show ?thesis
    using x by (simp add: b64val_b64char b64val_pad)
qed

lemma base64_roundtrip: "base64Decode (base64Encode bs) = bs"
proof (induction bs rule: base64Encode.induct)
  case 1
  show ?case by simp
next
  case (2 a)
  show ?case using decode_quantum1 [of a] by (simp add: Let_def)
next
  case (3 a b)
  show ?case using decode_quantum2 [of a b] by (simp add: Let_def)
next
  case (4 a b c rest)
  then show ?case using decode_quantum3 [of a b c "base64Encode rest"] by (simp add: Let_def)
qed

text \<open>Hexadecimal: decoding what was printed, and printing what was decoded.\<close>

lemma hexval_hexchar: "n < 16 \<Longrightarrow> hexval (hexchar n) = Some n"
  by (auto simp: hexval_def hexchar_def Let_def)

lemma hexchar_hexval: "hexval c = Some h \<Longrightarrow> h < 16 \<and> hexchar h = lowerHexDigit c"
  by (auto simp: hexval_def hexchar_def lowerHexDigit_def Let_def split: if_splits)

lemma lowerHexDigit_id: "isLowerHexDigit c \<Longrightarrow> lowerHexDigit c = c"
  by (auto simp: isLowerHexDigit_def lowerHexDigit_def Let_def)

lemma lower_is_hex: "isLowerHexDigit c \<Longrightarrow> isHexDigit c"
  by (auto simp: isLowerHexDigit_def isHexDigit_def hexval_def Let_def)

lemma hexByte_of_digits:
  assumes "h < 16" "l < 16"
  shows "hexByte (of_nat (16 * h + l)) = [hexchar h, hexchar l]"
proof -
  have "16 * h + l < 256" using assms by simp
  then have "unat (of_nat (16 * h + l) :: byte) = 16 * h + l"
    by (rule unat_of_nat_byte)
  then show ?thesis using assms by (simp add: hexByte_def)
qed

lemma hexEncode_hexDecode:
  "list_all isHexDigit s \<Longrightarrow> even (length s) \<Longrightarrow> hexEncode (hexDecode s) = map lowerHexDigit s"
proof (induction s rule: hexDecode.induct)
  case (1 a b rest)
  from "1.prems" obtain h l where h: "hexval a = Some h" and l: "hexval b = Some l"
    by (auto simp: isHexDigit_def)
  from "1.prems" have rest: "list_all isHexDigit rest" "even (length rest)"
    by simp_all
  have "hexByte (of_nat (16 * h + l)) = [lowerHexDigit a, lowerHexDigit b]"
    using hexByte_of_digits [of h l] hexchar_hexval [OF h] hexchar_hexval [OF l] by simp
  with "1.IH" [OF h l rest] show ?case
    by (simp add: h l hexEncode_def)
next
  case (2 a)
  then show ?case by simp
next
  case 3
  show ?case by (simp add: hexEncode_def)
qed

lemma hexDecode_hexEncode: "hexDecode (hexEncode bs) = bs"
proof (induction bs)
  case Nil
  show ?case by (simp add: hexEncode_def)
next
  case (Cons b bs)
  have hi: "unat b div 16 < 16"
    using unat_byte [of b] by simp
  have "16 * (unat b div 16) + unat b mod 16 = unat b"
    by simp
  then have "(of_nat (16 * (unat b div 16) + unat b mod 16) :: byte) = b"
    by simp
  with Cons hi show ?case
    by (simp add: hexEncode_def hexByte_def hexval_hexchar)
qed

lemma strip0x_prefixed: "strip0x (''0x'' @ k) = k"
  by simp

lemma strip0x_hex: "list_all isHexDigit k \<Longrightarrow> strip0x k = k"
  by (cases k rule: strip0x.cases) (auto simp: isHexDigit_def hexval_def)

section \<open>Key Vault round trip\<close>

lemma xor_aead_correct: "length key = 32 \<Longrightarrow> aead_correct xor_aead key"
  by (simp add: aead_correct_def xor_aead_def comp_def xor.assoc)

lemma demo_key_correct: "aead_correct xor_aead (getKey demo_cfg)"
  by (rule xor_aead_correct) (simp add: demo_key)

lemma vault_roundtrip:
  assumes "aead_correct c (getKey conf)"
  shows "roundTrip c conf nonce pkHex = Inr (''0x'' @ hexEncode (hexDecode (strip0x pkHex)))"
proof -
  from assms obtain ct tg where
    seal: "aead_seal c (getKey conf) nonce (hexDecode (strip0x pkHex)) = Inr (ct, tg)"
    and unseal: "aead_open c (getKey conf) nonce tg ct = Inr (hexDecode (strip0x pkHex))"
    unfolding aead_correct_def by blast
  then show ?thesis
    by (simp add: roundTrip_def encryptPrivateKey_def decryptPrivateKey_def base64_roundtrip)
qed

lemma demo_pk_bare_lower: "list_all isLowerHexDigit demo_pk_bare" "length demo_pk_bare = 64"
  by (simp_all add: demo_pk_bare_def isLowerHexDigit_def)

lemma demo_pk_upper_hex: "list_all isHexDigit demo_pk_upper" "length demo_pk_upper = 64"
  by (simp_all add: demo_pk_upper_def isHexDigit_def hexval_def)

lemma demo_pk_lowered: "map lowerHexDigit demo_pk_upper = demo_pk_bare"
  by (simp add: demo_pk_upper_def demo_pk_bare_def lowerHexDigit_def char_of_def bit_Suc_0_iff)

text \<open>
  C2 as stated does not hold: a key of 64 hex digits without prefix is valid key
  material, and it comes back with the prefix \<^verbatim>\<open>0x\<close> in front.
\<close>

theorem roundtrip_adds_prefix:
  "validatePrivateKey demo_pk_bare
   \<and> roundTrip xor_aead demo_cfg demo_nonce demo_pk_bare = Inr (''0x'' @ demo_pk_bare)
   \<and> roundTrip xor_aead demo_cfg demo_nonce demo_pk_bare \<noteq> Inr demo_pk_bare"
proof -
  have v: "validatePrivateKey demo_pk_bare"
    using demo_pk_bare_lower
    by (simp add: validatePrivateKey_def list_all_iff lower_is_hex) (simp add: demo_pk_bare_def)
  have "roundTrip xor_aead demo_cfg demo_nonce demo_pk_bare
          = Inr (''0x'' @ map lowerHexDigit demo_pk_bare)"
    using demo_pk_bare_lower
    by (simp add: vault_roundtrip [OF demo_key_correct] strip0x_hex hexEncode_hexDecode
          list_all_iff lower_is_hex)
  also have "map lowerHexDigit demo_pk_bare = demo_pk_bare"
    using demo_pk_bare_lower(1) by (simp add: list_all_iff lowerHexDigit_id map_idI)
  finally show ?thesis using v by simp
qed

text \<open>
  C2, amended. For a key in the form every caller passes it in (\<^verbatim>\<open>0x\<close> followed by 64
  lower-case hex digits, as \<^verbatim>\<open>wallet.privateKey\<close> is), under a key for which the cipher
  works, encrypting succeeds and decrypting the envelope returns the key unchanged.
\<close>

theorem roundtrip_canonical_key:
  assumes "aead_correct c (getKey conf)" and "length k = 64" and "list_all isLowerHexDigit k"
  shows "roundTrip c conf nonce (''0x'' @ k) = Inr (''0x'' @ k)"
proof -
  from assms(3) have hex: "list_all isHexDigit k"
    by (simp add: list_all_iff lower_is_hex)
  from assms(3) have "map lowerHexDigit k = k"
    by (simp add: list_all_iff lowerHexDigit_id map_idI)
  with hexEncode_hexDecode [OF hex] assms(2) have "hexEncode (hexDecode k) = k"
    by simp
  then show ?thesis
    using vault_roundtrip [OF assms(1), of nonce "''0x'' @ k"] by simp
qed

theorem roundtrip_canonical_key_witness:
  "roundTrip xor_aead demo_cfg demo_nonce demo_pk = Inr demo_pk"
proof -
  have "demo_pk = ''0x'' @ demo_pk_bare"
    by (simp add: demo_pk_def demo_pk_bare_def)
  with roundtrip_canonical_key [OF demo_key_correct demo_pk_bare_lower(2) demo_pk_bare_lower(1),
         of demo_nonce]
  show ?thesis by simp
qed

text \<open>
  C9 as stated does not hold: hex printing is lower-case, so a key typed with the
  digits \<^verbatim>\<open>A\<close> to \<^verbatim>\<open>F\<close> does not come back as \<^verbatim>\<open>0x\<close> followed by itself.
\<close>

theorem roundtrip_lowers_case:
  "length demo_pk_upper = 64 \<and> list_all isHexDigit demo_pk_upper
   \<and> roundTrip xor_aead demo_cfg demo_nonce demo_pk_upper = Inr (''0x'' @ demo_pk_bare)
   \<and> roundTrip xor_aead demo_cfg demo_nonce demo_pk_upper \<noteq> Inr (''0x'' @ demo_pk_upper)"
proof -
  have "roundTrip xor_aead demo_cfg demo_nonce demo_pk_upper
          = Inr (''0x'' @ map lowerHexDigit demo_pk_upper)"
    using demo_pk_upper_hex
    by (simp add: vault_roundtrip [OF demo_key_correct] strip0x_hex hexEncode_hexDecode)
  moreover have "demo_pk_bare \<noteq> demo_pk_upper"
    by (simp add: demo_pk_bare_def demo_pk_upper_def)
  ultimately show ?thesis
    using demo_pk_upper_hex by (simp add: demo_pk_lowered)
qed

text \<open>
  C9, amended. For a key of 64 hex digits given without prefix, under a key for which
  the cipher works: decrypting the envelope of the key gives \<^verbatim>\<open>0x\<close> followed by the key
  with its digits in lower case, which is \<^verbatim>\<open>0x\<close> followed by the key itself when the key
  has no upper-case digit; and the key with and without the prefix \<^verbatim>\<open>0x\<close> decode to the
  same plaintext bytes and, with the same nonce, to the same envelope.
\<close>

theorem unprefixed_key_roundtrip:
  assumes "aead_correct c (getKey conf)" and "length K = 64" and "list_all isHexDigit K"
  shows "roundTrip c conf nonce K = Inr (''0x'' @ map lowerHexDigit K)
       \<and> (list_all isLowerHexDigit K \<longrightarrow> roundTrip c conf nonce K = Inr (''0x'' @ K))
       \<and> hexDecode (strip0x (''0x'' @ K)) = hexDecode (strip0x K)
       \<and> encryptPrivateKey c conf nonce (''0x'' @ K) = encryptPrivateKey c conf nonce K"
proof -
  have s: "strip0x K = K"
    using assms(3) by (rule strip0x_hex)
  have r: "roundTrip c conf nonce K = Inr (''0x'' @ map lowerHexDigit K)"
    using vault_roundtrip [OF assms(1), of nonce K] hexEncode_hexDecode [OF assms(3)] assms(2)
    by (simp add: s)
  have "list_all isLowerHexDigit K \<longrightarrow> map lowerHexDigit K = K"
    by (simp add: list_all_iff lowerHexDigit_id map_idI)
  with r s show ?thesis
    by (simp add: encryptPrivateKey_def)
qed

theorem unprefixed_key_roundtrip_witness:
  "roundTrip xor_aead demo_cfg demo_nonce demo_pk_bare = Inr demo_pk
   \<and> encryptPrivateKey xor_aead demo_cfg demo_nonce demo_pk
       = encryptPrivateKey xor_aead demo_cfg demo_nonce demo_pk_bare"
proof -
  have hex: "list_all isHexDigit demo_pk_bare"
    using demo_pk_bare_lower(1) by (simp add: list_all_iff lower_is_hex)
  have pk: "demo_pk = ''0x'' @ demo_pk_bare"
    by (simp add: demo_pk_def demo_pk_bare_def)
  note t = unprefixed_key_roundtrip [OF demo_key_correct demo_pk_bare_lower(2) hex, of demo_nonce]
  from t demo_pk_bare_lower(1)
  have "roundTrip xor_aead demo_cfg demo_nonce demo_pk_bare = Inr (''0x'' @ demo_pk_bare)"
    by blast
  moreover from t
  have "encryptPrivateKey xor_aead demo_cfg demo_nonce (''0x'' @ demo_pk_bare)
          = encryptPrivateKey xor_aead demo_cfg demo_nonce demo_pk_bare"
    by blast
  ultimately show ?thesis by (simp only: pk)
qed

section \<open>Holdings\<close>

lemma delta_sum:
  "sum_list (map delta (filter (\<lambda>row. symbol row = g) rows))
   = sum_list (map amount (filter (\<lambda>row. symbol row = g \<and> order_type row = Buy) rows))
     - sum_list (map amount (filter (\<lambda>row. symbol row = g \<and> order_type row = Sell) rows))"
proof (induction rows)
  case Nil
  show ?case by simp
next
  case (Cons row rows)
  then show ?case
    by (cases "order_type row") (simp_all add: delta_def)
qed

lemma net_position_delta:
  "net_position tbl uid g
   = sum_list (map delta (filter (\<lambda>row. symbol row = g) (rowsOf tbl uid)))"
  by (simp add: net_position_def delta_sum)

lemma positive_groups:
  "(g, n) \<in> set (filter (\<lambda>(g, net). net > 0) (map (\<lambda>g. (g, f g)) gs))
   \<longleftrightarrow> g \<in> set gs \<and> n = f g \<and> 0 < n"
  by auto

lemma get_holdings_for_user_member:
  "(g, n) \<in> set (get_holdings_for_user tbl uid)
   \<longleftrightarrow> g \<in> symbol ` set (rowsOf tbl uid) \<and> n = net_position tbl uid g \<and> 0 < n"
  unfolding get_holdings_for_user_def Let_def positive_groups
  by (simp add: net_position_delta)

lemma get_holdings_for_user_distinct: "distinct (map fst (get_holdings_for_user tbl uid))"
proof -
  have "distinct (map fst (filter P (map (\<lambda>g. (g, f g)) gs)))" if "distinct gs"
    for P :: "string \<times> number \<Rightarrow> bool" and f :: "string \<Rightarrow> number" and gs
    using that by (induction gs) (auto simp: image_iff)
  then show ?thesis
    by (simp add: get_holdings_for_user_def Let_def)
qed

text \<open>
  C6. For the records of one user: the amount \<open>get_holdings_for_user\<close> sums for a
  symbol, buys counted positive and sells negative, is the sum of the amounts bought
  minus the sum of the amounts sold; the function lists a symbol, once and with that net
  amount, when the net is above zero, and does not list it otherwise.
\<close>

theorem holdings_net_position:
  "sum_list (map delta (filter (\<lambda>row. symbol row = g) (rowsOf tbl uid))) = net_position tbl uid g
   \<and> ((g, n) \<in> set (get_holdings_for_user tbl uid)
      \<longleftrightarrow> g \<in> symbol ` set (rowsOf tbl uid) \<and> n = net_position tbl uid g \<and> 0 < n)
   \<and> distinct (map fst (get_holdings_for_user tbl uid))"
  by (simp add: net_position_delta get_holdings_for_user_member get_holdings_for_user_distinct)

theorem holdings_net_position_witness:
  "(''DEMO'', 12) \<in> set (get_holdings_for_user demo_ledger_held ''42'')
   \<and> get_holdings_for_user demo_ledger_flat ''42'' = []"
proof -
  have held: "net_position demo_ledger_held ''42'' ''DEMO'' = 12"
    "''DEMO'' \<in> symbol ` set (rowsOf demo_ledger_held ''42'')"
    by (simp_all add: net_position_def rowsOf_def demo_ledger_held_def demo_trade_def)
  have flat: "net_position demo_ledger_flat ''42'' ''DEMO'' = 0"
    "symbol ` set (rowsOf demo_ledger_flat ''42'') = {''DEMO''}"
    by (simp_all add: net_position_def rowsOf_def demo_ledger_flat_def demo_trade_def)
  from holdings_net_position [where g = "''DEMO''" and n = 12 and tbl = demo_ledger_held
         and uid = "''42''"] held
  have listed: "(''DEMO'', 12) \<in> set (get_holdings_for_user demo_ledger_held ''42'')"
    by simp
  have "p \<notin> set (get_holdings_for_user demo_ledger_flat ''42'')" for p
  proof
    assume "p \<in> set (get_holdings_for_user demo_ledger_flat ''42'')"
    then have "(fst p, snd p) \<in> set (get_holdings_for_user demo_ledger_flat ''42'')"
      by simp
    with holdings_net_position [where g = "fst p" and n = "snd p" and tbl = demo_ledger_flat
           and uid = "''42''"]
    have "fst p \<in> symbol ` set (rowsOf demo_ledger_flat ''42'')"
      and "snd p = net_position demo_ledger_flat ''42'' (fst p)" and "0 < snd p"
      by blast+
    with flat show False by simp
  qed
  then have "get_holdings_for_user demo_ledger_flat ''42'' = []"
    by (cases "get_holdings_for_user demo_ledger_flat ''42''") auto
  with listed show ?thesis by simp
qed

lemma holdings_examples:
  "get_holdings_for_user demo_ledger_held ''42'' = [(''DEMO'', 12)]"
  "get_holdings_for_user demo_ledger_flat ''42'' = []"
  by (simp_all add: get_holdings_for_user_def rowsOf_def delta_def
        demo_ledger_held_def demo_ledger_flat_def demo_trade_def)

end
